theory Spec2Isabelle
  imports Main "HOL-Library.Sublist"
begin

section \<open>Strings and numbers of the host language\<close>

text \<open>
  Strings are lists of code units; the model covers the code units below 256, which is
  where every character the adapter inspects lives (digits, sign, \<open>>\<close>, newline).
  Integers are unbounded: the line numbers, breakpoint numbers and handles the adapter
  handles stay far below the 2^53 limit where the host's numbers stop being exact.
\<close>

definition newline :: char where
  "newline = CHR 0x0A"

text \<open>\<open>s.lastIndexOf(c)\<close>: the greatest index holding \<open>c\<close>, \<open>None\<close> for the host's -1.\<close>

fun lastIndexOf :: "string \<Rightarrow> char \<Rightarrow> nat option" where
  "lastIndexOf [] c = None"
| "lastIndexOf (x # xs) c =
     (case lastIndexOf xs c of
        Some i \<Rightarrow> Some (Suc i)
      | None \<Rightarrow> if x = c then Some 0 else None)"

text \<open>\<open>s.substring(a, b)\<close> and \<open>s.substring(a)\<close> for indices within the string.\<close>

definition substring :: "string \<Rightarrow> nat \<Rightarrow> nat \<Rightarrow> string" where
  "substring s a b = take (b - a) (drop a s)"

definition substring_from :: "string \<Rightarrow> nat \<Rightarrow> string" where
  "substring_from s a = drop a s"

text \<open>\<open>s.split(sep)[0]\<close> for a non-empty separator: the text before its first occurrence.\<close>

fun split_first :: "string \<Rightarrow> string \<Rightarrow> string" where
  "split_first sep [] = []"
| "split_first sep (c # cs) =
     (if prefix sep (c # cs) then [] else c # split_first sep cs)"

text \<open>Decimal rendering of a number, as a template string or \<open>String(n)\<close> prints it.\<close>

definition digit_char :: "nat \<Rightarrow> char" where
  "digit_char d = char_of (48 + d)"

fun string_of_nat :: "nat \<Rightarrow> string" where
  "string_of_nat n =
     (if n < 10 then [digit_char n] else string_of_nat (n div 10) @ [digit_char (n mod 10)])"

declare string_of_nat.simps [simp del]

definition string_of_int :: "int \<Rightarrow> string" where
  "string_of_int i = (if i < 0 then CHR ''-'' # string_of_nat (nat (- i)) else string_of_nat (nat i))"

text \<open>
  \<open>parseInt(s, 10)\<close>: skip leading white space, read an optional sign, then the longest
  run of decimal digits; \<open>None\<close> stands for NaN (no digit found). The regular
  expression class \<open>\s\<close> is the same set of code units.
\<close>

definition isWhiteSpace :: "char \<Rightarrow> bool" where
  "isWhiteSpace c =
     (c = CHR 0x09 \<or> c = CHR 0x0A \<or> c = CHR 0x0B \<or> c = CHR 0x0C \<or> c = CHR 0x0D \<or>
      c = CHR 0x20 \<or> c = CHR 0xA0)"

definition isDigit :: "char \<Rightarrow> bool" where
  "isDigit c = (48 \<le> (of_char c :: nat) \<and> (of_char c :: nat) \<le> 57)"

definition digit_value :: "char \<Rightarrow> nat" where
  "digit_value c = of_char c - 48"

definition digits_value :: "string \<Rightarrow> nat" where
  "digits_value ds = foldl (\<lambda>a c. 10 * a + digit_value c) 0 ds"

definition parseInt10 :: "string \<Rightarrow> int option" where
  "parseInt10 s =
     (let t = dropWhile isWhiteSpace s;
          neg = (case t of [] \<Rightarrow> False | c # _ \<Rightarrow> c = CHR ''-'');
          u = (case t of [] \<Rightarrow> [] | c # r \<Rightarrow> if c = CHR ''-'' \<or> c = CHR ''+'' then r else t);
          ds = takeWhile isDigit u
      in if ds = [] then None
         else Some (if neg then - int (digits_value ds) else int (digits_value ds)))"

text \<open>\<open>s.startsWith('>')\<close>.\<close>

definition startsWith_gt :: "string \<Rightarrow> bool" where
  "startsWith_gt s = (case s of [] \<Rightarrow> False | c # _ \<Rightarrow> c = CHR ''>'')"

section \<open>The process supervisor (abstract-server.ts)\<close>

text \<open>
  The exit code handed to \<open>onExit\<close>: the source's comment lists undefined, null and
  numbers.
\<close>

datatype exit_code = CodeUndefined | CodeNull | CodeNum int

text \<open>The host's truthiness test \<open>!!code\<close>.\<close>

fun truthy_code :: "exit_code \<Rightarrow> bool" where
  "truthy_code CodeUndefined = False"
| "truthy_code CodeNull = False"
| "truthy_code (CodeNum n) = (n \<noteq> 0)"

text \<open>How a template string prints the code.\<close>

fun render_code :: "exit_code \<Rightarrow> string" where
  "render_code CodeUndefined = ''undefined''"
| "render_code CodeNull = ''null''"
| "render_code (CodeNum n) = string_of_int n"

datatype stream = Stdout | Stderr

text \<open>
  What the supervisor does to the outside, in order: events emitted on the emitter
  (\<open>stdout\<close>, \<open>stderr\<close>, \<open>exit\<close>, \<open>error\<close>), calls of the two promise callbacks and
  \<open>clearTimeout\<close>.
\<close>

datatype effect =
    EmitData stream string
  | EmitExit exit_code string
  | EmitError string
  | LaunchResolve
  | LaunchReject string
  | ClearTimeout

text \<open>
  The fields of \<open>AbstractServer\<close>. The callbacks and the timer are optional fields of the
  source; the model keeps whether each is set, and records calls in \<open>trace\<close>.
\<close>

record server =
  outBuffer :: string
  errBuffer :: string
  launchResolve :: bool
  launchReject :: bool
  timer :: bool
  trace :: "effect list"

text \<open>The two abstract methods and the platform's line separator \<open>EOL\<close>.\<close>

record server_hooks =
  serverStarted :: "string \<Rightarrow> bool"
  serverError :: "string \<Rightarrow> bool"
  EOL :: string

definition emit :: "effect \<Rightarrow> server \<Rightarrow> server" where
  "emit e s = s\<lparr>trace := trace s @ [e]\<rparr>"

definition clearTimer :: "server \<Rightarrow> server" where
  "clearTimer s = (if timer s then (emit ClearTimeout s)\<lparr>timer := False\<rparr> else s)"

definition clearPromises :: "server \<Rightarrow> server" where
  "clearPromises s = s\<lparr>launchResolve := False, launchReject := False\<rparr>"

definition onExit :: "exit_code \<Rightarrow> string \<Rightarrow> server \<Rightarrow> server" where
  "onExit code signal s =
     (let s1 = emit (EmitExit code signal) s
      in if truthy_code code
         then emit (EmitError (''GDB server stopped unexpectedly with exit code '' @ render_code code)) s1
         else s1)"

definition onSpawnError :: "string \<Rightarrow> server \<Rightarrow> server" where
  "onSpawnError err s =
     (if launchReject s
      then clearPromises (emit (LaunchReject err) (clearTimer s))
      else s)"

definition handleData :: "server_hooks \<Rightarrow> string \<Rightarrow> server \<Rightarrow> server" where
  "handleData h data s =
     (let s1 = (if launchResolve s \<and> serverStarted h data
                then clearPromises (emit LaunchResolve (clearTimer s))
                else s)
      in if serverError h data
         then emit (EmitError (split_first (EOL h) data)) s1
         else s1)"

definition buffer_of :: "stream \<Rightarrow> server \<Rightarrow> string" where
  "buffer_of ev s = (case ev of Stdout \<Rightarrow> outBuffer s | Stderr \<Rightarrow> errBuffer s)"

definition set_buffer :: "stream \<Rightarrow> string \<Rightarrow> server \<Rightarrow> server" where
  "set_buffer ev b s = (case ev of Stdout \<Rightarrow> s\<lparr>outBuffer := b\<rparr> | Stderr \<Rightarrow> s\<lparr>errBuffer := b\<rparr>)"

definition onData :: "server_hooks \<Rightarrow> string \<Rightarrow> stream \<Rightarrow> server \<Rightarrow> server" where
  "onData h chunk ev s =
     (let s1 = set_buffer ev (buffer_of ev s @ chunk) s
      in case lastIndexOf (buffer_of ev s1) newline of
           None \<Rightarrow> s1
         | Some end \<Rightarrow>
             (let data = substring (buffer_of ev s1) 0 end;
                  s2 = emit (EmitData ev data) s1;
                  s3 = handleData h data s2
              in set_buffer ev (substring_from (buffer_of ev s3) (end + 1)) s3))"

definition onStdout :: "server_hooks \<Rightarrow> string \<Rightarrow> server \<Rightarrow> server" where
  "onStdout h chunk s = onData h chunk Stdout s"

definition onStderr :: "server_hooks \<Rightarrow> string \<Rightarrow> server \<Rightarrow> server" where
  "onStderr h chunk s = onData h chunk Stderr s"

text \<open>Feeding output lines one after the other, each to \<open>handleData\<close>.\<close>

fun feed :: "server_hooks \<Rightarrow> string list \<Rightarrow> server \<Rightarrow> server" where
  "feed h [] s = s"
| "feed h (l # ls) s = feed h ls (handleData h l s)"

section \<open>The debug session (cmsis-debug-session.ts)\<close>

subsection \<open>Handles\<close>

definition GLOBAL_HANDLE_ID :: int where
  "GLOBAL_HANDLE_ID = 0xFE"

definition STATIC_HANDLES_START :: int where
  "STATIC_HANDLES_START = 0x010000"

definition STATIC_HANDLES_FINISH :: int where
  "STATIC_HANDLES_FINISH = 0x01FFFF"

text \<open>
  The handle allocator of the debug-adapter library the session inherits
  (\<open>frameHandles\<close>, \<open>variableHandles\<close>): a counter starting at 1000 and a map from
  issued handles to their values.
\<close>

record 'a handles =
  nextHandle :: int
  handleMap :: "int \<rightharpoonup> 'a"

definition new_handles :: "'a handles" where
  "new_handles = \<lparr>nextHandle = 1000, handleMap = Map.empty\<rparr>"

definition create :: "'a \<Rightarrow> 'a handles \<Rightarrow> int \<times> 'a handles" where
  "create v h =
     (nextHandle h, h\<lparr>nextHandle := nextHandle h + 1, handleMap := (handleMap h)(nextHandle h \<mapsto> v)\<rparr>)"

definition get :: "'a handles \<Rightarrow> int \<Rightarrow> 'a option" where
  "get h k = handleMap h k"

record FrameReference =
  threadId :: int
  frameId :: int

text \<open>
  \<open>FrameVariableReference\<close> carries a frame handle; \<open>ObjectVariableReference\<close> a frame
  handle (the session's \<open>globalHandle\<close>, undefined before the first stack trace) and the
  name of the backend's variable object.
\<close>

datatype VariableReference =
    FrameVariableReference int
  | ObjectVariableReference "int option" string

subsection \<open>Messages to the front end and commands to the backend\<close>

text \<open>A breakpoint as the response reports it; \<open>None\<close> is NaN.\<close>

record Breakpoint =
  dap_id :: "int option"
  dap_line :: "int option"
  dap_verified :: bool

text \<open>A scope of the scopes response: name, variables reference (\<open>None\<close> is NaN), expensive.\<close>

datatype Scope = Scope string "int option" bool

datatype dap_message =
    OutputEvent string
  | TerminatedEvent
  | StoppedEvent string "int option" bool
  | SetBreakpointsResponse "Breakpoint list"
  | ScopesResponse "Scope list"
  | ErrorResponse int string

text \<open>The breakpoint rows of the backend's table, with the fields the session reads.\<close>

record MIBreakpointInfo =
  bp_number :: string
  bp_fullname :: "string option"
  bp_line :: "string option"
  bp_cond :: "string option"

text \<open>A breakpoint the front end asks for.\<close>

record SourceBreakpoint =
  vs_line :: int
  vs_condition :: "string option"
  vs_hitCondition :: "string option"
  vs_logMessage :: "string option"

record SetBreakpointsArguments =
  source_path :: "string option"
  breakpoints :: "SourceBreakpoint list option"

record break_args =
  location :: string
  condition :: "string option"
  temporary :: bool
  ignoreCount :: "int option"

record MIVarChange =
  vc_name :: string
  vc_value :: "string option"
  vc_in_scope :: string

record MIVarCreateResponse =
  cr_name :: string
  cr_numchild :: string
  cr_value :: "string option"
  cr_type :: string

datatype mi_command =
    Pause
  | ExecContinue
  | BreakList
  | BreakInsert break_args
  | BreakDelete "string list"
  | VarUpdate string
  | VarCreate string string string

text \<open>
  The backend behind the \<open>mi\<close> helpers: each command takes the backend's state and
  gives its reply, \<open>Inl\<close> an error message (the rejected promise), and the next state.
  The backend is a parameter of every request.
\<close>

record 'g mi =
  mi_pause :: "'g \<Rightarrow> 'g"
  mi_execContinue :: "'g \<Rightarrow> 'g"
  mi_breakList :: "'g \<Rightarrow> (string + MIBreakpointInfo list) \<times> 'g"
  mi_break :: "break_args \<Rightarrow> 'g \<Rightarrow> (string + MIBreakpointInfo) \<times> 'g"
  mi_breakDelete :: "string list \<Rightarrow> 'g \<Rightarrow> (string + unit) \<times> 'g"
  mi_varUpdate :: "string \<Rightarrow> 'g \<Rightarrow> (string + MIVarChange list) \<times> 'g"
  mi_varCreate :: "string \<Rightarrow> string \<Rightarrow> string \<Rightarrow> 'g \<Rightarrow> (string + MIVarCreateResponse) \<times> 'g"

subsection \<open>The tracked-variable cache\<close>

record VarObjType =
  varname :: string
  expression :: string
  numchild :: string
  var_value :: "string option"
  var_type :: string
  isVar :: bool
  isChild :: bool

type_synonym var_key = "int \<times> int \<times> int \<times> string"

text \<open>
  Modelled from the spec: the variable manager \<open>varMgr\<close> is imported from the backend
  adapter library and is not part of the sources; the specification describes it as a
  cache of tracked variables keyed by (frameId, threadId, depth, displayName), where
  \<open>getVar\<close> looks a key up and \<open>addVar\<close> stores the reply of a create command under it.
\<close>

definition getVar :: "(var_key \<rightharpoonup> VarObjType) \<Rightarrow> int \<Rightarrow> int \<Rightarrow> int \<Rightarrow> string \<Rightarrow> VarObjType option" where
  "getVar m fid tid depth name = m (fid, tid, depth, name)"

definition addVar ::
  "(var_key \<rightharpoonup> VarObjType) \<Rightarrow> int \<Rightarrow> int \<Rightarrow> int \<Rightarrow> string \<Rightarrow> bool \<Rightarrow> bool \<Rightarrow> MIVarCreateResponse
     \<Rightarrow> VarObjType \<times> (var_key \<rightharpoonup> VarObjType)" where
  "addVar m fid tid depth name isv isc r =
     (let v = \<lparr>varname = cr_name r, expression = name, numchild = cr_numchild r,
                var_value = cr_value r, var_type = cr_type r, isVar = isv, isChild = isc\<rparr>
      in (v, m((fid, tid, depth, name) \<mapsto> v)))"

subsection \<open>Session state\<close>

record 'g session =
  gdb :: 'g
  sent :: "mi_command list"
  out :: "dap_message list"
  isRunning :: bool
  waitPaused :: bool
  pauseResolved :: nat
  logPointMessages :: "string \<rightharpoonup> string"
  variableHandles :: "VariableReference handles"
  frameHandles :: "FrameReference handles"
  globalHandle :: "int option"
  varMap :: "var_key \<rightharpoonup> VarObjType"

definition sendEvent :: "dap_message \<Rightarrow> 'g session \<Rightarrow> 'g session" where
  "sendEvent e s = s\<lparr>out := out s @ [e]\<rparr>"

definition sendResponse :: "dap_message \<Rightarrow> 'g session \<Rightarrow> 'g session" where
  "sendResponse r s = s\<lparr>out := out s @ [r]\<rparr>"

definition sendErrorResponse :: "int \<Rightarrow> string \<Rightarrow> 'g session \<Rightarrow> 'g session" where
  "sendErrorResponse code msg s = s\<lparr>out := out s @ [ErrorResponse code msg]\<rparr>"

definition sendStoppedEvent :: "string \<Rightarrow> int option \<Rightarrow> bool \<Rightarrow> 'g session \<Rightarrow> 'g session" where
  "sendStoppedEvent reason tid allStopped s = sendEvent (StoppedEvent reason tid allStopped) s"

text \<open>The \<open>mi\<close> helpers: the command goes out, the backend moves, the reply comes back.\<close>

definition gdb_pause :: "'g mi \<Rightarrow> 'g session \<Rightarrow> 'g session" where
  "gdb_pause m s = s\<lparr>sent := sent s @ [Pause], gdb := mi_pause m (gdb s)\<rparr>"

definition sendExecContinue :: "'g mi \<Rightarrow> 'g session \<Rightarrow> 'g session" where
  "sendExecContinue m s = s\<lparr>sent := sent s @ [ExecContinue], gdb := mi_execContinue m (gdb s)\<rparr>"

definition sendBreakList :: "'g mi \<Rightarrow> 'g session \<Rightarrow> (string + MIBreakpointInfo list) \<times> 'g session" where
  "sendBreakList m s =
     (let (r, g) = mi_breakList m (gdb s) in (r, s\<lparr>sent := sent s @ [BreakList], gdb := g\<rparr>))"

definition sendBreak :: "'g mi \<Rightarrow> break_args \<Rightarrow> 'g session \<Rightarrow> (string + MIBreakpointInfo) \<times> 'g session" where
  "sendBreak m a s =
     (let (r, g) = mi_break m a (gdb s) in (r, s\<lparr>sent := sent s @ [BreakInsert a], gdb := g\<rparr>))"

definition sendBreakDelete :: "'g mi \<Rightarrow> string list \<Rightarrow> 'g session \<Rightarrow> (string + unit) \<times> 'g session" where
  "sendBreakDelete m ns s =
     (let (r, g) = mi_breakDelete m ns (gdb s) in (r, s\<lparr>sent := sent s @ [BreakDelete ns], gdb := g\<rparr>))"

definition sendVarUpdate :: "'g mi \<Rightarrow> string \<Rightarrow> 'g session \<Rightarrow> (string + MIVarChange list) \<times> 'g session" where
  "sendVarUpdate m name s =
     (let (r, g) = mi_varUpdate m name (gdb s) in (r, s\<lparr>sent := sent s @ [VarUpdate name], gdb := g\<rparr>))"

definition sendVarCreate ::
  "'g mi \<Rightarrow> string \<Rightarrow> string \<Rightarrow> string \<Rightarrow> 'g session \<Rightarrow> (string + MIVarCreateResponse) \<times> 'g session" where
  "sendVarCreate m name frame expr s =
     (let (r, g) = mi_varCreate m name frame expr (gdb s)
      in (r, s\<lparr>sent := sent s @ [VarCreate name frame expr], gdb := g\<rparr>))"

subsection \<open>Stack trace, scopes and variables requests\<close>

text \<open>
  \<open>stackTraceRequest\<close> allocates the pseudo frame before delegating to the inherited
  request (the delegation is outside this model).
\<close>

definition stackTraceRequest :: "'g session \<Rightarrow> 'g session" where
  "stackTraceRequest s =
     (let (h, fh) = create \<lparr>threadId = - 1, frameId = - 1\<rparr> (frameHandles s)
      in s\<lparr>globalHandle := Some h, frameHandles := fh\<rparr>)"

text \<open>\<open>parseInt(n as any, 10)\<close> on a number: the number is printed, then parsed.\<close>

definition parseInt_number :: "int \<Rightarrow> int option" where
  "parseInt_number n = parseInt10 (string_of_int n)"

definition static_handle :: "int \<Rightarrow> int option" where
  "static_handle fid = map_option (\<lambda>n. STATIC_HANDLES_START + n) (parseInt_number fid)"

definition scopes_of :: "int \<Rightarrow> int \<Rightarrow> Scope list" where
  "scopes_of local fid =
     [Scope ''Local'' (Some local) False,
      Scope ''Global'' (Some GLOBAL_HANDLE_ID) False,
      Scope ''Static'' (static_handle fid) False]"

definition scopesRequest :: "int \<Rightarrow> 'g session \<Rightarrow> 'g session" where
  "scopesRequest fid s =
     (let (local, vh) = create (FrameVariableReference fid) (variableHandles s)
      in sendResponse (ScopesResponse (scopes_of local fid)) (s\<lparr>variableHandles := vh\<rparr>))"

text \<open>
  \<open>variablesRequest\<close> chooses one of four resolvers by the reference; the model gives the
  resolver chosen and the argument it is called with.
\<close>

datatype variables_call =
    GetGlobalVariables "int option"
  | GetStaticVariables int
  | HandleVariableRequestFrame int
  | HandleVariableRequestObject "int option" string
  | NoVariables

definition variablesRequest :: "'g session \<Rightarrow> int \<Rightarrow> variables_call" where
  "variablesRequest s variablesReference =
     (let ref = get (variableHandles s) variablesReference
      in if variablesReference = GLOBAL_HANDLE_ID then GetGlobalVariables (globalHandle s)
         else if variablesReference \<ge> STATIC_HANDLES_START \<and> variablesReference \<le> STATIC_HANDLES_FINISH
         then GetStaticVariables (variablesReference - STATIC_HANDLES_START)
         else (case ref of
                 Some (FrameVariableReference f) \<Rightarrow> HandleVariableRequestFrame f
               | Some (ObjectVariableReference f n) \<Rightarrow> HandleVariableRequestObject f n
               | None \<Rightarrow> NoVariables))"

subsection \<open>Breakpoint reconciliation\<close>

text \<open>Truthiness of an optional string, and \<open>x || undefined\<close>.\<close>

definition truthy :: "string option \<Rightarrow> bool" where
  "truthy x = (case x of None \<Rightarrow> False | Some v \<Rightarrow> v \<noteq> [])"

definition or_undefined :: "string option \<Rightarrow> string option" where
  "or_undefined x = (if truthy x then x else None)"

definition createActual :: "MIBreakpointInfo \<Rightarrow> Breakpoint" where
  "createActual breakpoint =
     \<lparr>dap_id = parseInt10 (bp_number breakpoint),
      dap_line = (case bp_line breakpoint of
                    None \<Rightarrow> Some 0
                  | Some l \<Rightarrow> if l \<noteq> [] then parseInt10 l else Some 0),
      dap_verified = True\<rparr>"

text \<open>\<open>logPointMessages[number] = logMessage\<close> when the message is truthy.\<close>

definition register_log :: "string \<Rightarrow> string option \<Rightarrow> (string \<rightharpoonup> string) \<Rightarrow> (string \<rightharpoonup> string)" where
  "register_log number msg lpm =
     (case msg of None \<Rightarrow> lpm | Some t \<Rightarrow> if t \<noteq> [] then lpm(number \<mapsto> t) else lpm)"

text \<open>
  The callback of \<open>inserts.filter\<close> for one row \<open>gdbbp\<close> of the table, with what it does
  to \<open>actual\<close> and to the log-point table on the way; \<open>breakpoint\<close> is the result of
  \<open>breakpoints.find\<close>.
\<close>

fun filter_inserts ::
  "MIBreakpointInfo \<Rightarrow> int option \<Rightarrow> SourceBreakpoint option \<Rightarrow> SourceBreakpoint list
     \<Rightarrow> Breakpoint list \<Rightarrow> (string \<rightharpoonup> string)
     \<Rightarrow> SourceBreakpoint list \<times> Breakpoint list \<times> (string \<rightharpoonup> string)" where
  "filter_inserts gdbbp line breakpoint [] actual lpm = ([], actual, lpm)"
| "filter_inserts gdbbp line breakpoint (vsbp # rest) actual lpm =
     (if Some (vs_line vsbp) \<noteq> line
      then (case filter_inserts gdbbp line breakpoint rest actual lpm of
              (kept, a, l) \<Rightarrow> (vsbp # kept, a, l))
      else if or_undefined (vs_condition vsbp) \<noteq> or_undefined (bp_cond gdbbp)
      then (case filter_inserts gdbbp line breakpoint rest actual lpm of
              (kept, a, l) \<Rightarrow> (vsbp # kept, a, l))
      else filter_inserts gdbbp line breakpoint rest (actual @ [createActual gdbbp])
             (case breakpoint of
                None \<Rightarrow> lpm
              | Some b \<Rightarrow> register_log (bp_number gdbbp) (vs_logMessage b) lpm))"

text \<open>The callback of \<open>BreakpointTable.body.forEach\<close>.\<close>

definition scan_entry ::
  "string option \<Rightarrow> SourceBreakpoint list \<Rightarrow> MIBreakpointInfo
     \<Rightarrow> SourceBreakpoint list \<times> string list \<times> Breakpoint list \<times> (string \<rightharpoonup> string)
     \<Rightarrow> SourceBreakpoint list \<times> string list \<times> Breakpoint list \<times> (string \<rightharpoonup> string)" where
  "scan_entry file bps gdbbp st =
     (case st of (inserts, deletes, actual, lpm) \<Rightarrow>
        if bp_fullname gdbbp = file \<and> truthy (bp_line gdbbp)
        then (case bp_line gdbbp of
                None \<Rightarrow> st
              | Some l \<Rightarrow>
                  (let line = parseInt10 l;
                       breakpoint = find (\<lambda>vsbp. Some (vs_line vsbp) = line) bps;
                       deletes1 = (if breakpoint = None then deletes @ [bp_number gdbbp] else deletes)
                   in case filter_inserts gdbbp line breakpoint inserts actual lpm of
                        (inserts1, actual1, lpm1) \<Rightarrow> (inserts1, deletes1, actual1, lpm1)))
        else st)"

text \<open>\<open>hitCondition.replace(ignoreCountRegex, '')\<close> with the regular expression \<open>/\s|\>/g\<close>.\<close>

definition replace_ignoreCountRegex :: "string \<Rightarrow> string" where
  "replace_ignoreCountRegex hc = filter (\<lambda>c. \<not> (isWhiteSpace c \<or> c = CHR ''>'')) hc"

text \<open>
  The hit condition of one breakpoint to insert: \<open>Inr (temporary, ignoreCount)\<close>, or
  \<open>Inl\<close> the text of the diagnostic when the count does not parse.
\<close>

definition decode_hitCondition :: "string option \<Rightarrow> string + (bool \<times> int option)" where
  "decode_hitCondition hitCondition =
     (case hitCondition of
        None \<Rightarrow> Inr (False, None)
      | Some hc \<Rightarrow>
          (case parseInt10 (replace_ignoreCountRegex hc) of
             None \<Rightarrow> Inl (''Unable to decode expression: '' @ hc)
           | Some n \<Rightarrow> Inr (\<not> startsWith_gt hc, Some n)))"

definition location_of :: "string option \<Rightarrow> int \<Rightarrow> string" where
  "location_of file line =
     (case file of None \<Rightarrow> ''undefined'' | Some f \<Rightarrow> f) @ '':'' @ string_of_int line"

text \<open>One \<open>mi.sendBreak\<close> of the insert loop and what follows its reply.\<close>

definition install ::
  "'g mi \<Rightarrow> string option \<Rightarrow> SourceBreakpoint \<Rightarrow> bool \<Rightarrow> int option \<Rightarrow> Breakpoint list \<Rightarrow> 'g session
     \<Rightarrow> (string + Breakpoint list) \<times> 'g session" where
  "install m file vsbp temp ign actual s =
     (case sendBreak m \<lparr>location = location_of file (vs_line vsbp), condition = vs_condition vsbp,
                         temporary = temp, ignoreCount = ign\<rparr> s of
        (Inl err, s1) \<Rightarrow> (Inl err, s1)
      | (Inr bkpt, s1) \<Rightarrow>
          (Inr (actual @ [createActual bkpt]),
           s1\<lparr>logPointMessages := register_log (bp_number bkpt) (vs_logMessage vsbp) (logPointMessages s1)\<rparr>))"

text \<open>The loop \<open>for (const vsbp of inserts)\<close>; an error reply leaves the loop.\<close>

fun insert_loop ::
  "'g mi \<Rightarrow> string option \<Rightarrow> SourceBreakpoint list \<Rightarrow> Breakpoint list \<Rightarrow> 'g session
     \<Rightarrow> (string + Breakpoint list) \<times> 'g session" where
  "insert_loop m file [] actual s = (Inr actual, s)"
| "insert_loop m file (vsbp # rest) actual s =
     (case decode_hitCondition (vs_hitCondition vsbp) of
        Inl diagnostic \<Rightarrow> insert_loop m file rest actual (sendEvent (OutputEvent diagnostic) s)
      | Inr (temp, ign) \<Rightarrow>
          (case install m file vsbp temp ign actual s of
             (Inl err, s1) \<Rightarrow> (Inl err, s1)
           | (Inr actual1, s1) \<Rightarrow> insert_loop m file rest actual1 s1))"

text \<open>The \<open>try\<close> block of \<open>setBreakPointsRequest\<close> with its \<open>catch\<close>.\<close>

definition setBreakPoints_try :: "'g mi \<Rightarrow> SetBreakpointsArguments \<Rightarrow> 'g session \<Rightarrow> 'g session" where
  "setBreakPoints_try m args s =
     (let file = source_path args;
          bps = (case breakpoints args of None \<Rightarrow> [] | Some b \<Rightarrow> b)
      in case sendBreakList m s of
           (Inl err, s1) \<Rightarrow> sendErrorResponse 1 err s1
         | (Inr body, s1) \<Rightarrow>
             (case fold (scan_entry file bps) body (bps, [], [], logPointMessages s1) of
                (inserts, deletes, actual, lpm) \<Rightarrow>
                  (case insert_loop m file inserts actual (s1\<lparr>logPointMessages := lpm\<rparr>) of
                     (Inl err, s2) \<Rightarrow> sendErrorResponse 1 err s2
                   | (Inr actual1, s2) \<Rightarrow>
                       (if deletes \<noteq> []
                        then (case sendBreakDelete m deletes s2 of
                                (Inl err, s3) \<Rightarrow> sendErrorResponse 1 err s3
                              | (Inr _, s3) \<Rightarrow> sendResponse (SetBreakpointsResponse actual1) s3)
                        else sendResponse (SetBreakpointsResponse actual1) s2))))"

text \<open>
  The whole request. When the target runs, the session stores the resolver, asks the
  backend to pause and waits for the stop classifier to call the resolver; the model
  continues from the moment the wait returns.
\<close>

definition setBreakPointsRequest :: "'g mi \<Rightarrow> SetBreakpointsArguments \<Rightarrow> 'g session \<Rightarrow> 'g session" where
  "setBreakPointsRequest m args s =
     (let neededPause = isRunning s;
          s1 = (if neededPause then gdb_pause m (s\<lparr>waitPaused := True\<rparr>) else s);
          s2 = s1\<lparr>logPointMessages := Map.empty\<rparr>;
          s3 = setBreakPoints_try m args s2
      in if neededPause then sendExecContinue m s3 else s3)"

subsection \<open>Stop notifications\<close>

text \<open>The fields of a stop notification the classifier reads; each may be absent.\<close>

record stop_result =
  reason :: "string option"
  thread_id :: "string option"
  stopped_threads :: "string option"
  signal_name :: "string option"
  bkptno :: "string option"

definition getThreadId :: "stop_result \<Rightarrow> int option" where
  "getThreadId resultData =
     (case thread_id resultData of None \<Rightarrow> None | Some t \<Rightarrow> parseInt10 t)"

definition getAllThreadsStopped :: "stop_result \<Rightarrow> bool" where
  "getAllThreadsStopped resultData =
     (truthy (stopped_threads resultData) \<and> stopped_threads resultData = Some ''all'')"

text \<open>\<open>logPointMessages[result.bkptno]\<close>: an absent number is the property name \<open>undefined\<close>.\<close>

definition log_message_for :: "(string \<rightharpoonup> string) \<Rightarrow> string option \<Rightarrow> string option" where
  "log_message_for lpm no = lpm (case no of None \<Rightarrow> ''undefined'' | Some k \<Rightarrow> k)"

definition handleGDBStopped :: "'g mi \<Rightarrow> stop_result \<Rightarrow> 'g session \<Rightarrow> 'g session" where
  "handleGDBStopped m result s =
     (if reason result = Some ''exited'' \<or> reason result = Some ''exited-normally''
      then sendEvent TerminatedEvent s
      else if reason result = Some ''breakpoint-hit''
      then (if truthy (log_message_for (logPointMessages s) (bkptno result))
            then (case log_message_for (logPointMessages s) (bkptno result) of
                    None \<Rightarrow> s
                  | Some msg \<Rightarrow> sendExecContinue m (sendEvent (OutputEvent msg) s))
            else sendStoppedEvent ''breakpoint'' (getThreadId result) (getAllThreadsStopped result) s)
      else if reason result = Some ''end-stepping-range'' \<or> reason result = Some ''function-finished''
      then sendStoppedEvent ''step'' (getThreadId result) (getAllThreadsStopped result) s
      else if reason result = Some ''signal-received''
      then (let name = (if truthy (signal_name result)
                        then (case signal_name result of None \<Rightarrow> ''signal'' | Some n \<Rightarrow> n)
                        else ''signal'');
                s1 = sendStoppedEvent name (getThreadId result) (getAllThreadsStopped result) s
            in if waitPaused s1 then s1\<lparr>pauseResolved := pauseResolved s1 + 1\<rparr> else s1)
      else sendStoppedEvent ''generic'' (getThreadId result) (getAllThreadsStopped result) s)"

subsection \<open>Variable resolution\<close>

record Variable =
  v_name :: string
  v_value :: string
  v_type :: string
  v_variablesReference :: int

text \<open>The tail of \<open>getVariables\<close>: the variable returned for the cache entry \<open>global\<close>.\<close>

definition variable_of :: "string \<Rightarrow> VarObjType \<Rightarrow> 'g session \<Rightarrow> Variable \<times> 'g session" where
  "variable_of expr global s =
     (let children = (case parseInt10 (numchild global) of None \<Rightarrow> False | Some n \<Rightarrow> n > 0);
          (ref, s1) =
            (if children
             then (let (h, vh) = create (ObjectVariableReference (globalHandle s) (varname global))
                                   (variableHandles s)
                   in (h, s\<lparr>variableHandles := vh\<rparr>))
             else (0, s))
      in (\<lparr>v_name = expr,
           v_value = (case var_value global of None \<Rightarrow> ''<unknown>'' | Some v \<Rightarrow> v),
           v_type = var_type global,
           v_variablesReference = ref\<rparr>, s1))"

text \<open>\<open>update && update.in_scope === 'true' && update.name === global.varname\<close>.\<close>

definition update_applies :: "MIVarChange list \<Rightarrow> VarObjType \<Rightarrow> bool" where
  "update_applies changelist global =
     (case changelist of
        [] \<Rightarrow> False
      | update # _ \<Rightarrow> vc_in_scope update = ''true'' \<and> vc_name update = varname global)"

definition getVariables ::
  "'g mi \<Rightarrow> FrameReference \<Rightarrow> string \<Rightarrow> string \<Rightarrow> int \<Rightarrow> 'g session
     \<Rightarrow> (string + Variable) \<times> 'g session" where
  "getVariables m frame name expr depth s =
     (case getVar (varMap s) (frameId frame) (threadId frame) depth name of
        Some global \<Rightarrow>
          (case sendVarUpdate m name s of
             (Inl err, s1) \<Rightarrow> (Inl err, s1)
           | (Inr changelist, s1) \<Rightarrow>
               (case changelist of
                  [] \<Rightarrow> (case variable_of expr global s1 of (v, s2) \<Rightarrow> (Inr v, s2))
                | update # _ \<Rightarrow>
                    if update_applies changelist global
                    then (let global1 = global\<lparr>var_value := vc_value update\<rparr>;
                              s2 = s1\<lparr>varMap := (varMap s1)((frameId frame, threadId frame, depth, name) \<mapsto> global1)\<rparr>
                          in case variable_of expr global1 s2 of (v, s3) \<Rightarrow> (Inr v, s3))
                    else (case variable_of expr global s1 of (v, s2) \<Rightarrow> (Inr v, s2))))
      | None \<Rightarrow>
          (case sendVarCreate m name ''current'' expr s of
             (Inl err, s1) \<Rightarrow> (Inl err, s1)
           | (Inr varCreateResponse, s1) \<Rightarrow>
               (case addVar (varMap s1) (frameId frame) (threadId frame) depth name True False
                       varCreateResponse of
                  (global, vm) \<Rightarrow>
                    (case variable_of expr global (s1\<lparr>varMap := vm\<rparr>) of (v, s2) \<Rightarrow> (Inr v, s2)))))"

subsection \<open>Counting what a request sent\<close>

definition is_insert :: "mi_command \<Rightarrow> bool" where
  "is_insert c = (case c of BreakInsert _ \<Rightarrow> True | _ \<Rightarrow> False)"


definition is_create :: "mi_command \<Rightarrow> bool" where
  "is_create c = (case c of VarCreate _ _ _ \<Rightarrow> True | _ \<Rightarrow> False)"

definition is_update :: "mi_command \<Rightarrow> bool" where
  "is_update c = (case c of VarUpdate _ \<Rightarrow> True | _ \<Rightarrow> False)"

definition is_stop_event :: "dap_message \<Rightarrow> bool" where
  "is_stop_event e = (case e of StoppedEvent _ _ _ \<Rightarrow> True | _ \<Rightarrow> False)"

definition is_output_event :: "dap_message \<Rightarrow> bool" where
  "is_output_event e = (case e of OutputEvent _ \<Rightarrow> True | _ \<Rightarrow> False)"

text \<open>The commands and messages a step added: what follows the earlier log.\<close>

definition new_since :: "'a list \<Rightarrow> 'a list \<Rightarrow> 'a list" where
  "new_since before after = drop (length before) after"

subsection \<open>A reference backend\<close>

text \<open>
  A backend that keeps a breakpoint table: break-list returns it, break-insert appends
  a row with a fresh number for the location and condition asked for, break-delete
  removes the rows whose numbers are listed. It never fails. It serves to run a
  reconciliation pass end to end.
\<close>

record gdb_model =
  table :: "MIBreakpointInfo list"
  counter :: nat

definition row_of :: "nat \<Rightarrow> break_args \<Rightarrow> MIBreakpointInfo" where
  "row_of n a =
     (case lastIndexOf (location a) CHR '':'' of
        None \<Rightarrow> \<lparr>bp_number = string_of_nat n, bp_fullname = None, bp_line = None, bp_cond = condition a\<rparr>
      | Some i \<Rightarrow> \<lparr>bp_number = string_of_nat n,
                   bp_fullname = Some (substring (location a) 0 i),
                   bp_line = Some (substring_from (location a) (i + 1)),
                   bp_cond = condition a\<rparr>)"

definition model_mi :: "gdb_model mi" where
  "model_mi =
     \<lparr>mi_pause = (\<lambda>g. g),
      mi_execContinue = (\<lambda>g. g),
      mi_breakList = (\<lambda>g. (Inr (table g), g)),
      mi_break = (\<lambda>a g. (Inr (row_of (counter g) a),
                          g\<lparr>table := table g @ [row_of (counter g) a], counter := counter g + 1\<rparr>)),
      mi_breakDelete = (\<lambda>ns g. (Inr (), g\<lparr>table := filter (\<lambda>b. bp_number b \<notin> set ns) (table g)\<rparr>)),
      mi_varUpdate = (\<lambda>n g. (Inr [], g)),
      mi_varCreate = (\<lambda>n f e g. (Inr \<lparr>cr_name = n, cr_numchild = ''0'', cr_value = None, cr_type = ''int''\<rparr>, g))\<rparr>"

definition new_session :: "'g \<Rightarrow> 'g session" where
  "new_session g =
     \<lparr>gdb = g, sent = [], out = [], isRunning = False, waitPaused = False, pauseResolved = 0,
      logPointMessages = Map.empty, variableHandles = new_handles, frameHandles = new_handles,
      globalHandle = None, varMap = Map.empty\<rparr>"

definition new_server :: server where
  "new_server =
     \<lparr>outBuffer = [], errBuffer = [], launchResolve = False, launchReject = False, timer = False,
      trace = []\<rparr>"

text \<open>\<open>spawn\<close> up to the start of the process: both callbacks stored, the timer armed.\<close>

definition spawned :: "server \<Rightarrow> server" where
  "spawned s = s\<lparr>launchResolve := True, launchReject := True, timer := True\<rparr>"

subsection \<open>Reading traces\<close>

definition is_error_event :: "effect \<Rightarrow> bool" where
  "is_error_event e = (case e of EmitError _ \<Rightarrow> True | _ \<Rightarrow> False)"

definition is_exit_event :: "effect \<Rightarrow> bool" where
  "is_exit_event e = (case e of EmitExit _ _ \<Rightarrow> True | _ \<Rightarrow> False)"


text \<open>Both kinds occur in the list and the first \<open>p\<close> comes before the first \<open>q\<close>.\<close>

definition precedes :: "('a \<Rightarrow> bool) \<Rightarrow> ('a \<Rightarrow> bool) \<Rightarrow> 'a list \<Rightarrow> bool" where
  "precedes p q xs =
     (list_ex p xs \<and> list_ex q xs \<and>
      length (takeWhile (\<lambda>x. \<not> p x) xs) < length (takeWhile (\<lambda>x. \<not> q x) xs))"



definition ready_hooks :: server_hooks where
  "ready_hooks =
     \<lparr>serverStarted = (\<lambda>l. l = ''GDB server started''), serverError = (\<lambda>_. False), EOL = [newline]\<rparr>"

text \<open>Concrete inputs: an empty backend, a breakpoint-hit notification, the pseudo frame.\<close>

definition g0 :: gdb_model where
  "g0 = \<lparr>table = [], counter = 1\<rparr>"

definition hit1 :: stop_result where
  "hit1 = \<lparr>reason = Some ''breakpoint-hit'', thread_id = Some ''1'', stopped_threads = Some ''all'',
           signal_name = None, bkptno = Some ''1''\<rparr>"

definition pseudo_frame :: FrameReference where
  "pseudo_frame = \<lparr>threadId = - 1, frameId = - 1\<rparr>"

text \<open>The reference backend, but every update reports the variable in scope with value 42.\<close>

definition updating_mi :: "gdb_model mi" where
  "updating_mi = model_mi\<lparr>mi_varUpdate :=
      (\<lambda>n g. (Inr [\<lparr>vc_name = n, vc_value = Some ''42'', vc_in_scope = ''true''\<rparr>], g))\<rparr>"

subsection \<open>Vocabulary of the reconciliation claims\<close>

text \<open>
  The rows of the backend's table the pass looks at for a file: those whose \<open>fullname\<close>
  is the file and whose \<open>line\<close> is truthy.
\<close>

definition in_file :: "string option \<Rightarrow> MIBreakpointInfo \<Rightarrow> bool" where
  "in_file file g = (bp_fullname g = file \<and> truthy (bp_line g))"

definition gdb_line :: "MIBreakpointInfo \<Rightarrow> int option" where
  "gdb_line g = (case bp_line g of None \<Rightarrow> None | Some l \<Rightarrow> parseInt10 l)"

text \<open>
  Line and condition of an installed and of a desired breakpoint, an absent condition
  and an empty one being the same.
\<close>

definition gdb_key :: "MIBreakpointInfo \<Rightarrow> int option \<times> string option" where
  "gdb_key g = (gdb_line g, or_undefined (bp_cond g))"

definition vs_key :: "SourceBreakpoint \<Rightarrow> int option \<times> string option" where
  "vs_key v = (Some (vs_line v), or_undefined (vs_condition v))"

definition desired_of :: "SetBreakpointsArguments \<Rightarrow> SourceBreakpoint list" where
  "desired_of args = (case breakpoints args of None \<Rightarrow> [] | Some b \<Rightarrow> b)"





text \<open>Concrete inputs: two installed rows of \<open>main.c\<close>, and requests for that file.\<close>

definition row10 :: MIBreakpointInfo where
  "row10 = \<lparr>bp_number = ''1'', bp_fullname = Some ''main.c'', bp_line = Some ''10'', bp_cond = None\<rparr>"

definition row20 :: MIBreakpointInfo where
  "row20 = \<lparr>bp_number = ''2'', bp_fullname = Some ''main.c'', bp_line = Some ''20'',
            bp_cond = Some ''x > 1''\<rparr>"

definition g2 :: gdb_model where
  "g2 = \<lparr>table = [row10, row20], counter = 3\<rparr>"


definition request :: "SourceBreakpoint list \<Rightarrow> SetBreakpointsArguments" where
  "request bs = \<lparr>source_path = Some ''main.c'', breakpoints = Some bs\<rparr>"

definition logpoint40 :: SourceBreakpoint where
  "logpoint40 = \<lparr>vs_line = 40, vs_condition = None, vs_hitCondition = None,
                  vs_logMessage = Some ''hit main''\<rparr>"

text \<open>Every message of a log-point table is non-empty.\<close>

definition all_truthy :: "(string \<rightharpoonup> string) \<Rightarrow> bool" where
  "all_truthy lpm = (\<forall>k msg. lpm k = Some msg \<longrightarrow> msg \<noteq> [])"

section \<open>Properties of the process supervisor\<close>

lemma digit_chars:
  "digit_char 0 = CHR ''0''" "digit_char 1 = CHR ''1''" "digit_char 2 = CHR ''2''"
  "digit_char 3 = CHR ''3''" "digit_char 4 = CHR ''4''" "digit_char 5 = CHR ''5''"
  "digit_char 6 = CHR ''6''" "digit_char 7 = CHR ''7''" "digit_char 8 = CHR ''8''"
  "digit_char 9 = CHR ''9''" "digit_char (Suc 0) = CHR ''1''"
  by code_simp+

lemma trace_emit: "trace (emit e s) = trace s @ [e]"
  by (simp add: emit_def)

subsection \<open>Process exit\<close>

text \<open>
  C7 (as amended). On process exit the supervisor appends to its trace the exit event
  and, exactly when the code is a non-zero number, one error event after it; for zero,
  null and undefined the exit event is the only one. The exit event comes first: the
  source calls \<open>emit('exit', ...)\<close> before it tests the code.
\<close>

theorem onExit_trace:
  "trace (onExit code signal s) =
     trace s @ (if truthy_code code
                then [EmitExit code signal,
                      EmitError (''GDB server stopped unexpectedly with exit code '' @ render_code code)]
                else [EmitExit code signal])"
  by (simp add: onExit_def Let_def trace_emit)

theorem onExit_trace_witness:
  "trace (onExit (CodeNum 3) ''SIGINT'' new_server) =
     [EmitExit (CodeNum 3) ''SIGINT'', EmitError ''GDB server stopped unexpectedly with exit code 3'']
   \<and> trace (onExit CodeNull ''SIGINT'' new_server) = [EmitExit CodeNull ''SIGINT'']
   \<and> trace (onExit (CodeNum 0) [] new_server) = [EmitExit (CodeNum 0) []]"
  using onExit_trace [of "CodeNum 3" "''SIGINT''" new_server]
        onExit_trace [of CodeNull "''SIGINT''" new_server]
        onExit_trace [of "CodeNum 0" "[]" new_server]
  by (simp add: new_server_def string_of_int_def string_of_nat.simps digit_chars)

text \<open>
  The claim as written puts the error event before the exit event. With exit code 1 the
  trace is exit, then error.
\<close>

theorem onExit_error_first_counterexample:
  "trace (onExit (CodeNum 1) [] new_server)
     = [EmitExit (CodeNum 1) [], EmitError ''GDB server stopped unexpectedly with exit code 1'']
   \<and> \<not> precedes is_error_event is_exit_event (trace (onExit (CodeNum 1) [] new_server))"
  by (simp add: onExit_def Let_def trace_emit new_server_def precedes_def is_error_event_def
        is_exit_event_def string_of_int_def string_of_nat.simps digit_chars)

subsection \<open>Line buffering\<close>



lemma buffer_of_set_buffer [simp]: "buffer_of ev (set_buffer ev b s) = b"
  by (cases ev) (simp_all add: buffer_of_def set_buffer_def)

lemma buffer_of_emit [simp]: "buffer_of ev (emit e s) = buffer_of ev s"
  by (cases ev) (simp_all add: buffer_of_def emit_def)

lemma buffer_of_handleData [simp]: "buffer_of ev (handleData h d s) = buffer_of ev s"
  by (cases ev)
    (simp_all add: buffer_of_def handleData_def emit_def clearTimer_def clearPromises_def Let_def)

lemma trace_set_buffer [simp]: "trace (set_buffer ev b s) = trace s"
  by (cases ev) (simp_all add: set_buffer_def)





subsection \<open>Readiness\<close>

lemma feed_append: "feed h (xs @ ys) s = feed h ys (feed h xs s)"
  by (induction xs arbitrary: s) simp_all

lemma handleData_not_started:
  "\<not> serverStarted h l \<Longrightarrow>
     launchResolve (handleData h l s) = launchResolve s \<and> timer (handleData h l s) = timer s
     \<and> count_list (trace (handleData h l s)) LaunchResolve = count_list (trace s) LaunchResolve
     \<and> count_list (trace (handleData h l s)) ClearTimeout = count_list (trace s) ClearTimeout"
  by (simp add: handleData_def Let_def emit_def)

lemma handleData_not_pending:
  "\<not> launchResolve s \<Longrightarrow>
     launchResolve (handleData h l s) = launchResolve s \<and> timer (handleData h l s) = timer s
     \<and> count_list (trace (handleData h l s)) LaunchResolve = count_list (trace s) LaunchResolve
     \<and> count_list (trace (handleData h l s)) ClearTimeout = count_list (trace s) ClearTimeout"
  by (simp add: handleData_def Let_def emit_def)

lemma handleData_started:
  "launchResolve s \<Longrightarrow> serverStarted h l \<Longrightarrow>
     \<not> launchResolve (handleData h l s) \<and> \<not> timer (handleData h l s)
     \<and> count_list (trace (handleData h l s)) LaunchResolve = count_list (trace s) LaunchResolve + 1
     \<and> count_list (trace (handleData h l s)) ClearTimeout
         = count_list (trace s) ClearTimeout + (if timer s then 1 else 0)"
  by (simp add: handleData_def Let_def emit_def clearTimer_def clearPromises_def)

lemma feed_not_started:
  "\<forall>x\<in>set pre. \<not> serverStarted h x \<Longrightarrow>
     launchResolve (feed h pre s) = launchResolve s \<and> timer (feed h pre s) = timer s
     \<and> count_list (trace (feed h pre s)) LaunchResolve = count_list (trace s) LaunchResolve
     \<and> count_list (trace (feed h pre s)) ClearTimeout = count_list (trace s) ClearTimeout"
proof (induction pre arbitrary: s)
  case Nil
  then show ?case by simp
next
  case (Cons x xs)
  from Cons.prems have x: "\<not> serverStarted h x" and xs: "\<forall>y\<in>set xs. \<not> serverStarted h y"
    by simp_all
  from Cons.IH [OF xs, of "handleData h x s"] handleData_not_started [OF x, of s]
  show ?case by simp
qed

lemma feed_not_pending:
  "\<not> launchResolve s \<Longrightarrow>
     launchResolve (feed h ls s) = launchResolve s \<and> timer (feed h ls s) = timer s
     \<and> count_list (trace (feed h ls s)) LaunchResolve = count_list (trace s) LaunchResolve
     \<and> count_list (trace (feed h ls s)) ClearTimeout = count_list (trace s) ClearTimeout"
proof (induction ls arbitrary: s)
  case Nil
  then show ?case by simp
next
  case (Cons x xs)
  have np: "\<not> launchResolve (handleData h x s)"
    using handleData_not_pending [OF Cons.prems, of h x] Cons.prems by simp
  from Cons.IH [OF np] handleData_not_pending [OF Cons.prems, of h x]
  show ?case by simp
qed

text \<open>
  C6. While the start future is pending (\<open>launchResolve\<close> set), feed the lines
  \<open>pre\<close>, none of which matches \<open>serverStarted\<close>, then a matching line \<open>l\<close>, then any
  lines \<open>post\<close>. The future is still pending and unresolved after \<open>pre\<close>; the line \<open>l\<close>
  resolves it (one more call of the resolver), clears the timer (one \<open>clearTimeout\<close>
  when it was armed) and forgets the resolver; after \<open>post\<close>, whatever it holds, the
  number of resolver calls is still one more than at the start.
\<close>

theorem feed_resolves_once:
  assumes pending: "launchResolve s"
    and before: "\<forall>x\<in>set pre. \<not> serverStarted h x"
    and match: "serverStarted h l"
  shows "launchResolve (feed h pre s)
     \<and> count_list (trace (feed h pre s)) LaunchResolve = count_list (trace s) LaunchResolve
     \<and> count_list (trace (feed h (pre @ [l]) s)) LaunchResolve = count_list (trace s) LaunchResolve + 1
     \<and> \<not> timer (feed h (pre @ [l]) s)
     \<and> count_list (trace (feed h (pre @ [l]) s)) ClearTimeout
         = count_list (trace s) ClearTimeout + (if timer s then 1 else 0)
     \<and> \<not> launchResolve (feed h (pre @ l # post) s)
     \<and> \<not> timer (feed h (pre @ l # post) s)
     \<and> count_list (trace (feed h (pre @ l # post) s)) LaunchResolve
         = count_list (trace s) LaunchResolve + 1"
proof -
  let ?s1 = "feed h pre s"
  let ?s2 = "handleData h l ?s1"
  have p1: "launchResolve ?s1" "timer ?s1 = timer s"
    "count_list (trace ?s1) LaunchResolve = count_list (trace s) LaunchResolve"
    "count_list (trace ?s1) ClearTimeout = count_list (trace s) ClearTimeout"
    using feed_not_started [OF before, of s] pending by simp_all
  have s2: "feed h (pre @ [l]) s = ?s2" by (simp add: feed_append)
  have p2: "\<not> launchResolve ?s2" "\<not> timer ?s2"
    "count_list (trace ?s2) LaunchResolve = count_list (trace s) LaunchResolve + 1"
    "count_list (trace ?s2) ClearTimeout = count_list (trace s) ClearTimeout + (if timer s then 1 else 0)"
    using handleData_started [OF p1(1) match] p1 by simp_all
  have s3: "feed h (pre @ l # post) s = feed h post ?s2" by (simp add: feed_append)
  have p3: "\<not> launchResolve (feed h post ?s2)" "\<not> timer (feed h post ?s2)"
    "count_list (trace (feed h post ?s2)) LaunchResolve = count_list (trace s) LaunchResolve + 1"
    using feed_not_pending [OF p2(1), of h post] p2 by simp_all
  show ?thesis using p1 p2 p3 by (simp only: s2 s3 simp_thms)
qed

theorem feed_resolves_once_witness:
  "launchResolve (spawned new_server)
   \<and> list_all (\<lambda>x. \<not> serverStarted ready_hooks x) [''booting'']
   \<and> serverStarted ready_hooks ''GDB server started''
   \<and> trace (feed ready_hooks [''booting'', ''GDB server started'', ''GDB server started'']
        (spawned new_server)) = [ClearTimeout, LaunchResolve]
   \<and> count_list (trace (feed ready_hooks ([''booting''] @ ''GDB server started'' # [''GDB server started''])
        (spawned new_server))) LaunchResolve = 1"
  using feed_resolves_once [of "spawned new_server" "[''booting'']" ready_hooks "''GDB server started''"
          "[''GDB server started'']"]
  by (simp add: spawned_def new_server_def ready_hooks_def handleData_def Let_def emit_def
        clearTimer_def clearPromises_def)

section \<open>Properties of the handle encoding\<close>

subsection \<open>Printing a number and parsing it back\<close>

lemma isDigit_digit_char: "d < 10 \<Longrightarrow> isDigit (digit_char d)"
  by (simp add: isDigit_def digit_char_def)

lemma digit_value_digit_char: "d < 10 \<Longrightarrow> digit_value (digit_char d) = d"
  by (simp add: digit_value_def digit_char_def)

lemma string_of_nat_digits: "list_all isDigit (string_of_nat n)"
proof (induction n rule: string_of_nat.induct)
  case (1 n)
  show ?case
  proof (cases "n < 10")
    case True
    then show ?thesis by (subst string_of_nat.simps) (simp add: isDigit_digit_char)
  next
    case False
    with 1 show ?thesis by (subst string_of_nat.simps) (simp add: isDigit_digit_char)
  qed
qed

lemma string_of_nat_nonempty: "string_of_nat n \<noteq> []"
  by (subst string_of_nat.simps) simp

lemma digits_value_snoc: "digits_value (ds @ [c]) = 10 * digits_value ds + digit_value c"
  by (simp add: digits_value_def)

lemma digits_value_string_of_nat: "digits_value (string_of_nat n) = n"
proof (induction n rule: string_of_nat.induct)
  case (1 n)
  show ?case
  proof (cases "n < 10")
    case True
    then show ?thesis
      by (subst string_of_nat.simps) (simp add: digits_value_def digit_value_digit_char)
  next
    case False
    with 1 have "digits_value (string_of_nat (n div 10)) = n div 10" by simp
    with False show ?thesis
      by (subst string_of_nat.simps) (simp add: digits_value_snoc digit_value_digit_char)
  qed
qed

lemma isDigit_not_space: "isDigit c \<Longrightarrow> \<not> isWhiteSpace c"
  by (auto simp: isDigit_def isWhiteSpace_def)

lemma isDigit_not_sign: "isDigit c \<Longrightarrow> c \<noteq> CHR ''-'' \<and> c \<noteq> CHR ''+''"
  by (auto simp: isDigit_def)

lemma parseInt10_digits:
  assumes "list_all isDigit ds" "ds \<noteq> []"
  shows "parseInt10 ds = Some (int (digits_value ds))"
proof -
  from assms obtain c r where ds: "ds = c # r" by (cases ds) auto
  with assms have c: "isDigit c" by simp
  have dw: "dropWhile isWhiteSpace ds = ds" using c by (simp add: ds isDigit_not_space)
  have tw: "takeWhile isDigit ds = ds"
    using assms(1) by (simp add: takeWhile_eq_all_conv list_all_iff)
  have neg: "(case ds of [] \<Rightarrow> False | c # _ \<Rightarrow> c = CHR ''-'') = False"
    using isDigit_not_sign [OF c] by (simp add: ds)
  have u: "(case ds of [] \<Rightarrow> [] | c # r \<Rightarrow> if c = CHR ''-'' \<or> c = CHR ''+'' then r else ds) = ds"
    using isDigit_not_sign [OF c] by (simp add: ds)
  show ?thesis
    by (simp only: parseInt10_def Let_def dw neg u tw) (simp add: assms(2))
qed

lemma parseInt10_minus_digits:
  assumes "list_all isDigit ds" "ds \<noteq> []"
  shows "parseInt10 (CHR ''-'' # ds) = Some (- int (digits_value ds))"
proof -
  have tw: "takeWhile isDigit ds = ds"
    using assms(1) by (simp add: takeWhile_eq_all_conv list_all_iff)
  have dw: "dropWhile isWhiteSpace (CHR ''-'' # ds) = CHR ''-'' # ds"
    by (simp add: isWhiteSpace_def)
  show ?thesis
    by (simp only: parseInt10_def Let_def dw list.case simp_thms if_True tw) (simp add: assms(2))
qed

lemma parseInt10_string_of_int: "parseInt10 (string_of_int n) = Some n"
proof (cases "n < 0")
  case True
  then show ?thesis
    by (simp add: string_of_int_def parseInt10_minus_digits string_of_nat_digits
          string_of_nat_nonempty digits_value_string_of_nat)
next
  case False
  then show ?thesis
    by (simp add: string_of_int_def parseInt10_digits string_of_nat_digits
          string_of_nat_nonempty digits_value_string_of_nat)
qed

lemma static_handle_eq: "static_handle fid = Some (STATIC_HANDLES_START + fid)"
  by (simp add: static_handle_def parseInt_number_def parseInt10_string_of_int)

lemma out_scopesRequest:
  "out (scopesRequest fid s) =
     out s @ [ScopesResponse (scopes_of (nextHandle (variableHandles s)) fid)]"
  by (simp add: scopesRequest_def create_def sendResponse_def)

subsection \<open>The static range\<close>

text \<open>
  C4. For every frame handle below 0x10000 the scopes response carries, as the Static
  scope's reference, \<open>STATIC_HANDLES_START\<close> plus the handle; that reference lies in
  [0x010000, 0x01FFFF]; the variables request maps it back, by subtraction, to the call
  of the statics resolver with exactly that frame handle; and the encoding is a bijection
  between the handles below 0x10000 and that range (injective, and every reference of the
  range is the image of a handle below 0x10000). Frame handles are the natural numbers
  the allocator issues.
\<close>

theorem static_handle_roundtrip:
  fixes frameHandle :: nat
  assumes "frameHandle < 0x10000"
  shows "out (scopesRequest (int frameHandle) s) =
           out s @ [ScopesResponse
                      [Scope ''Local'' (Some (nextHandle (variableHandles s))) False,
                       Scope ''Global'' (Some GLOBAL_HANDLE_ID) False,
                       Scope ''Static'' (Some (STATIC_HANDLES_START + int frameHandle)) False]]
     \<and> 0x010000 \<le> STATIC_HANDLES_START + int frameHandle
     \<and> STATIC_HANDLES_START + int frameHandle \<le> 0x01FFFF
     \<and> variablesRequest t (STATIC_HANDLES_START + int frameHandle) = GetStaticVariables (int frameHandle)
     \<and> (\<forall>g. static_handle (int g) = static_handle (int frameHandle) \<longrightarrow> g = frameHandle)
     \<and> (\<forall>h. 0x010000 \<le> h \<and> h \<le> 0x01FFFF \<longrightarrow>
           (\<exists>f. f < 0x10000 \<and> static_handle (int f) = Some h))"
proof (intro conjI)
  show "out (scopesRequest (int frameHandle) s) =
           out s @ [ScopesResponse
                      [Scope ''Local'' (Some (nextHandle (variableHandles s))) False,
                       Scope ''Global'' (Some GLOBAL_HANDLE_ID) False,
                       Scope ''Static'' (Some (STATIC_HANDLES_START + int frameHandle)) False]]"
    by (simp add: out_scopesRequest scopes_of_def static_handle_eq)
  show "0x010000 \<le> STATIC_HANDLES_START + int frameHandle"
    by (simp add: STATIC_HANDLES_START_def)
  show "STATIC_HANDLES_START + int frameHandle \<le> 0x01FFFF"
    using assms by (simp add: STATIC_HANDLES_START_def)
  show "variablesRequest t (STATIC_HANDLES_START + int frameHandle) = GetStaticVariables (int frameHandle)"
    using assms
    by (simp add: variablesRequest_def Let_def STATIC_HANDLES_START_def STATIC_HANDLES_FINISH_def
          GLOBAL_HANDLE_ID_def)
  show "\<forall>g. static_handle (int g) = static_handle (int frameHandle) \<longrightarrow> g = frameHandle"
    by (simp add: static_handle_eq)
  show "\<forall>h. 0x010000 \<le> h \<and> h \<le> 0x01FFFF \<longrightarrow> (\<exists>f. f < 0x10000 \<and> static_handle (int f) = Some h)"
  proof (intro allI impI)
    fix h :: int
    assume h: "0x010000 \<le> h \<and> h \<le> 0x01FFFF"
    then have "nat (h - 0x10000) < 0x10000" by linarith
    moreover from h have "static_handle (int (nat (h - 0x10000))) = Some h"
      by (simp add: static_handle_eq STATIC_HANDLES_START_def)
    ultimately have "nat (h - 0x10000) < 0x10000 \<and> static_handle (int (nat (h - 0x10000))) = Some h"
      by simp
    then show "\<exists>f. f < 0x10000 \<and> static_handle (int f) = Some h" by blast
  qed
qed

theorem static_handle_roundtrip_witness:
  "(1000::nat) < 0x10000
   \<and> static_handle 1000 = Some 0x0103E8
   \<and> variablesRequest (new_session ()) 0x0103E8 = GetStaticVariables 1000
   \<and> out (scopesRequest 1000 (new_session ())) =
        [ScopesResponse [Scope ''Local'' (Some 1000) False, Scope ''Global'' (Some 0xFE) False,
                         Scope ''Static'' (Some 0x0103E8) False]]"
  using static_handle_roundtrip [of 1000 "new_session ()" "new_session ()"]
  by (simp add: static_handle_eq STATIC_HANDLES_START_def GLOBAL_HANDLE_ID_def new_session_def new_handles_def)



section \<open>Properties of the variable resolver\<close>

lemma variable_of_keeps:
  "sent (snd (variable_of e g s)) = sent s \<and> varMap (snd (variable_of e g s)) = varMap s
   \<and> gdb (snd (variable_of e g s)) = gdb s"
  by (simp add: variable_of_def Let_def create_def split: prod.split)

lemma getVariables_hit_sent:
  assumes "varMap s (frameId frame, threadId frame, depth, name) = Some g"
  shows "sent (snd (getVariables m frame name expr depth s)) = sent s @ [VarUpdate name]"
proof (cases "mi_varUpdate m name (gdb s)")
  case (Pair r g')
  show ?thesis
  proof (cases r)
    case (Inl e)
    with Pair assms show ?thesis
      by (simp add: getVariables_def getVar_def sendVarUpdate_def)
  next
    case (Inr cl)
    with Pair assms show ?thesis
      by (cases cl)
        (simp_all add: getVariables_def getVar_def sendVarUpdate_def Let_def variable_of_keeps split_beta)
  qed
qed

lemma getVariables_hit_cache:
  assumes "varMap s (frameId frame, threadId frame, depth, name) = Some g"
    and "mi_varUpdate m name (gdb s) = (Inr cl, g')"
  shows "varMap (snd (getVariables m frame name expr depth s)) =
           (case cl of
              [] \<Rightarrow> varMap s
            | u # _ \<Rightarrow>
                if vc_in_scope u = ''true'' \<and> vc_name u = varname g
                then (varMap s)((frameId frame, threadId frame, depth, name) \<mapsto> g\<lparr>var_value := vc_value u\<rparr>)
                else varMap s)"
  using assms
  by (cases cl)
    (simp_all add: getVariables_def getVar_def sendVarUpdate_def Let_def variable_of_keeps
       update_applies_def split_beta)

lemma getVariables_hit_error:
  assumes "varMap s (frameId frame, threadId frame, depth, name) = Some g"
    and "mi_varUpdate m name (gdb s) = (Inl e, g')"
  shows "varMap (snd (getVariables m frame name expr depth s)) = varMap s"
  using assms by (simp add: getVariables_def getVar_def sendVarUpdate_def)

lemma getVariables_miss_sent:
  assumes "varMap s (frameId frame, threadId frame, depth, name) = None"
  shows "sent (snd (getVariables m frame name expr depth s)) = sent s @ [VarCreate name ''current'' expr]"
proof (cases "mi_varCreate m name ''current'' expr (gdb s)")
  case (Pair r g')
  with assms show ?thesis
    by (cases r)
      (simp_all add: getVariables_def getVar_def sendVarCreate_def addVar_def Let_def variable_of_keeps split_beta)
qed

lemma getVariables_miss_cache:
  assumes "varMap s (frameId frame, threadId frame, depth, name) = None"
    and "mi_varCreate m name ''current'' expr (gdb s) = (Inr r, g')"
  shows "varMap (snd (getVariables m frame name expr depth s)) =
           (varMap s)((frameId frame, threadId frame, depth, name) \<mapsto>
              \<lparr>varname = cr_name r, expression = name, numchild = cr_numchild r,
               var_value = cr_value r, var_type = cr_type r, isVar = True, isChild = False\<rparr>)"
  using assms
  by (simp add: getVariables_def getVar_def sendVarCreate_def addVar_def Let_def variable_of_keeps split_beta)

text \<open>
  C5. Resolving a variable under the key (frameId, threadId, depth, displayName).
  On a cache hit the only command sent is one update (no create), and when the backend
  answers with a change list the cached entry gets the reported value exactly when the
  first change is in scope and names the cached backend variable; otherwise, and when
  the update fails, the cache is left as it was. On a cache miss the only command sent is one create; when the
  backend answers, its reply is stored under the key, and resolving the same key again
  (whatever the backend then answers) sends one update and no second create.
\<close>

theorem getVariables_create_or_update:
  fixes s :: "'g session" and m :: "'g mi" and frame :: FrameReference
    and name :: string and expr :: string and depth :: int
  defines "key \<equiv> (frameId frame, threadId frame, depth, name)"
  defines "s1 \<equiv> snd (getVariables m frame name expr depth s)"
  shows "(\<forall>g. varMap s key = Some g \<longrightarrow>
            sent s1 = sent s @ [VarUpdate name]
            \<and> filter is_create (new_since (sent s) (sent s1)) = []
            \<and> (\<forall>cl g'. mi_varUpdate m name (gdb s) = (Inr cl, g') \<longrightarrow>
                  varMap s1 =
                    (case cl of
                       [] \<Rightarrow> varMap s
                     | u # _ \<Rightarrow>
                         if vc_in_scope u = ''true'' \<and> vc_name u = varname g
                         then (varMap s)(key \<mapsto> g\<lparr>var_value := vc_value u\<rparr>)
                         else varMap s))
            \<and> (\<forall>e g'. mi_varUpdate m name (gdb s) = (Inl e, g') \<longrightarrow> varMap s1 = varMap s))
     \<and> (varMap s key = None \<longrightarrow>
            sent s1 = sent s @ [VarCreate name ''current'' expr]
            \<and> (\<forall>r g'. mi_varCreate m name ''current'' expr (gdb s) = (Inr r, g') \<longrightarrow>
                  varMap s1 =
                    (varMap s)(key \<mapsto>
                       \<lparr>varname = cr_name r, expression = name, numchild = cr_numchild r,
                        var_value = cr_value r, var_type = cr_type r, isVar = True, isChild = False\<rparr>)
                  \<and> sent (snd (getVariables m2 frame name expr2 depth s1))
                       = sent s @ [VarCreate name ''current'' expr, VarUpdate name]
                  \<and> filter is_create (new_since (sent s1)
                       (sent (snd (getVariables m2 frame name expr2 depth s1)))) = []))"
proof (intro conjI allI impI)
  fix g assume g: "varMap s key = Some g"
  then show u: "sent s1 = sent s @ [VarUpdate name]"
    unfolding key_def s1_def by (rule getVariables_hit_sent)
  show "filter is_create (new_since (sent s) (sent s1)) = []"
    by (simp add: u new_since_def is_create_def)
  fix cl g' assume "mi_varUpdate m name (gdb s) = (Inr cl, g')"
  with g show "varMap s1 =
                    (case cl of
                       [] \<Rightarrow> varMap s
                     | u # _ \<Rightarrow>
                         if vc_in_scope u = ''true'' \<and> vc_name u = varname g
                         then (varMap s)(key \<mapsto> g\<lparr>var_value := vc_value u\<rparr>)
                         else varMap s)"
    unfolding key_def s1_def by (rule getVariables_hit_cache)
next
  fix g e g' assume "varMap s key = Some g" "mi_varUpdate m name (gdb s) = (Inl e, g')"
  then show "varMap s1 = varMap s"
    unfolding key_def s1_def by (rule getVariables_hit_error)
next
  assume n: "varMap s key = None"
  then show c: "sent s1 = sent s @ [VarCreate name ''current'' expr]"
    unfolding key_def s1_def by (rule getVariables_miss_sent)
  fix r g' assume r: "mi_varCreate m name ''current'' expr (gdb s) = (Inr r, g')"
  with n show vm: "varMap s1 =
                    (varMap s)(key \<mapsto>
                       \<lparr>varname = cr_name r, expression = name, numchild = cr_numchild r,
                        var_value = cr_value r, var_type = cr_type r, isVar = True, isChild = False\<rparr>)"
    unfolding key_def s1_def by (rule getVariables_miss_cache)
  then have "varMap s1 (frameId frame, threadId frame, depth, name) =
     Some \<lparr>varname = cr_name r, expression = name, numchild = cr_numchild r,
                        var_value = cr_value r, var_type = cr_type r, isVar = True, isChild = False\<rparr>"
    by (simp add: key_def)
  from getVariables_hit_sent [OF this, of m2 expr2]
  have second: "sent (snd (getVariables m2 frame name expr2 depth s1)) = sent s1 @ [VarUpdate name]" .
  then show "sent (snd (getVariables m2 frame name expr2 depth s1))
                       = sent s @ [VarCreate name ''current'' expr, VarUpdate name]"
    by (simp add: c)
  show "filter is_create (new_since (sent s1)
                       (sent (snd (getVariables m2 frame name expr2 depth s1)))) = []"
    by (simp add: second new_since_def is_create_def)
qed

lemma first_resolve:
  "getVariables model_mi pseudo_frame ''global_var_x'' ''x'' (- 1) (new_session g0) =
     (Inr \<lparr>v_name = ''x'', v_value = ''<unknown>'', v_type = ''int'', v_variablesReference = 0\<rparr>,
      (new_session g0)\<lparr>sent := [VarCreate ''global_var_x'' ''current'' ''x''],
         varMap := [(- 1, - 1, - 1, ''global_var_x'') \<mapsto>
            \<lparr>varname = ''global_var_x'', expression = ''global_var_x'', numchild = ''0'',
             var_value = None, var_type = ''int'', isVar = True, isChild = False\<rparr>]\<rparr>)"
  by (simp add: new_session_def g0_def pseudo_frame_def model_mi_def getVariables_def
        getVar_def addVar_def sendVarCreate_def variable_of_def Let_def
        parseInt10_def isWhiteSpace_def isDigit_def digits_value_def digit_value_def)

theorem getVariables_create_or_update_witness:
  "varMap (new_session g0) (frameId pseudo_frame, threadId pseudo_frame, - 1, ''global_var_x'') = None
   \<and> mi_varCreate model_mi ''global_var_x'' ''current'' ''x'' (gdb (new_session g0))
       = (Inr \<lparr>cr_name = ''global_var_x'', cr_numchild = ''0'', cr_value = None, cr_type = ''int''\<rparr>, g0)
   \<and> sent (snd (getVariables model_mi pseudo_frame ''global_var_x'' ''x'' (- 1) (new_session g0)))
       = [VarCreate ''global_var_x'' ''current'' ''x'']
   \<and> sent (snd (getVariables updating_mi pseudo_frame ''global_var_x'' ''x'' (- 1)
        (snd (getVariables model_mi pseudo_frame ''global_var_x'' ''x'' (- 1) (new_session g0)))))
       = [VarCreate ''global_var_x'' ''current'' ''x'', VarUpdate ''global_var_x'']
   \<and> map_option var_value
        (varMap (snd (getVariables updating_mi pseudo_frame ''global_var_x'' ''x'' (- 1)
           (snd (getVariables model_mi pseudo_frame ''global_var_x'' ''x'' (- 1) (new_session g0)))))
          (- 1, - 1, - 1, ''global_var_x'')) = Some (Some ''42'')"
proof -
  define s1 where "s1 = snd (getVariables model_mi pseudo_frame ''global_var_x'' ''x'' (- 1) (new_session g0))"
  have miss: "varMap (new_session g0) (frameId pseudo_frame, threadId pseudo_frame, - 1, ''global_var_x'') = None"
    by (simp add: new_session_def)
  have reply: "mi_varCreate model_mi ''global_var_x'' ''current'' ''x'' (gdb (new_session g0))
       = (Inr \<lparr>cr_name = ''global_var_x'', cr_numchild = ''0'', cr_value = None, cr_type = ''int''\<rparr>, g0)"
    by (simp add: model_mi_def new_session_def)
  note t = getVariables_create_or_update [where s = "new_session g0" and frame = pseudo_frame
          and depth = "- 1" and name = "''global_var_x''" and m = model_mi and expr = "''x''"
          and ?m2.0 = updating_mi and ?expr2.0 = "''x''"]
  from t miss reply
  have a: "sent s1 = sent (new_session g0) @ [VarCreate ''global_var_x'' ''current'' ''x'']"
    and b: "sent (snd (getVariables updating_mi pseudo_frame ''global_var_x'' ''x'' (- 1) s1))
       = sent (new_session g0) @ [VarCreate ''global_var_x'' ''current'' ''x'', VarUpdate ''global_var_x'']"
    unfolding s1_def by blast+
  have hit: "varMap s1 (frameId pseudo_frame, threadId pseudo_frame, - 1, ''global_var_x'') =
      Some \<lparr>varname = ''global_var_x'', expression = ''global_var_x'', numchild = ''0'',
             var_value = None, var_type = ''int'', isVar = True, isChild = False\<rparr>"
    unfolding s1_def first_resolve by (simp add: pseudo_frame_def)
  have upd: "mi_varUpdate updating_mi ''global_var_x'' (gdb s1)
       = (Inr [\<lparr>vc_name = ''global_var_x'', vc_value = Some ''42'', vc_in_scope = ''true''\<rparr>], g0)"
    unfolding s1_def first_resolve by (simp add: updating_mi_def model_mi_def new_session_def)
  note u = getVariables_create_or_update [where s = s1 and frame = pseudo_frame
          and depth = "- 1" and name = "''global_var_x''" and m = updating_mi and expr = "''x''"
          and ?m2.0 = updating_mi and ?expr2.0 = "''x''"]
  from u hit upd
  have "varMap (snd (getVariables updating_mi pseudo_frame ''global_var_x'' ''x'' (- 1) s1)) =
     (case [\<lparr>vc_name = ''global_var_x'', vc_value = Some ''42'', vc_in_scope = ''true''\<rparr>] of
        [] \<Rightarrow> varMap s1
      | u # _ \<Rightarrow>
          if vc_in_scope u = ''true'' \<and> vc_name u =
               varname \<lparr>varname = ''global_var_x'', expression = ''global_var_x'', numchild = ''0'',
                        var_value = None, var_type = ''int'', isVar = True, isChild = False\<rparr>
          then (varMap s1)((frameId pseudo_frame, threadId pseudo_frame, - 1, ''global_var_x'') \<mapsto>
                  \<lparr>varname = ''global_var_x'', expression = ''global_var_x'', numchild = ''0'',
                   var_value = None, var_type = ''int'', isVar = True, isChild = False\<rparr>
                  \<lparr>var_value := vc_value u\<rparr>)
          else varMap s1)"
    by blast
  then have c: "map_option var_value
        (varMap (snd (getVariables updating_mi pseudo_frame ''global_var_x'' ''x'' (- 1) s1))
          (- 1, - 1, - 1, ''global_var_x'')) = Some (Some ''42'')"
    by (simp add: pseudo_frame_def)
  from miss reply a b c show ?thesis
    unfolding s1_def by (simp add: new_session_def)
qed


section \<open>Properties of the breakpoint reconciliation\<close>

subsection \<open>The scan of the installed table\<close>

lemma filter_inserts_kept:
  "fst (filter_inserts g line bp vs actual lpm) =
     filter (\<lambda>v. \<not> (Some (vs_line v) = line \<and> or_undefined (vs_condition v) = or_undefined (bp_cond g))) vs"
  by (induction vs arbitrary: actual lpm) (simp_all add: split_beta)

lemma filter_inserts_actual:
  "fst (snd (filter_inserts g line bp vs actual lpm)) =
     actual @ replicate
       (length (filter (\<lambda>v. Some (vs_line v) = line \<and> or_undefined (vs_condition v) = or_undefined (bp_cond g)) vs))
       (createActual g)"
proof (induction vs arbitrary: actual lpm)
  case Nil
  then show ?case by simp
next
  case (Cons v vs)
  then show ?case by (simp add: split_beta)
qed

lemma find_None_line:
  "(find (\<lambda>v. Some (vs_line v) = line) bps = None) = (\<not> (\<exists>v\<in>set bps. Some (vs_line v) = line))"
  by (auto simp: find_None_iff)

lemma scan_entry_skip: "\<not> in_file file g \<Longrightarrow> scan_entry file bps g st = st"
  by (cases st) (auto simp: scan_entry_def in_file_def)

lemma scan_entry_in_file:
  assumes "in_file file g"
    and "scan_entry file bps g (ins, dels, act, lpm) = (ins1, dels1, act1, lpm1)"
  shows "ins1 = filter (\<lambda>v. vs_key v \<noteq> gdb_key g) ins
     \<and> dels1 = (if \<exists>v\<in>set bps. Some (vs_line v) = gdb_line g then dels else dels @ [bp_number g])
     \<and> act1 = act @ replicate (length (filter (\<lambda>v. vs_key v = gdb_key g) ins)) (createActual g)"
proof -
  from assms(1) obtain l where l: "bp_line g = Some l" "bp_fullname g = file" "truthy (bp_line g)"
    by (auto simp: in_file_def truthy_def split: option.splits)
  have line: "gdb_line g = parseInt10 l" by (simp add: gdb_line_def l)
  let ?bp = "find (\<lambda>v. Some (vs_line v) = parseInt10 l) bps"
  obtain i a m where f: "filter_inserts g (parseInt10 l) ?bp ins act lpm = (i, a, m)"
    by (cases "filter_inserts g (parseInt10 l) ?bp ins act lpm") auto
  from f filter_inserts_kept [of g "parseInt10 l" ?bp ins act lpm]
  have i: "i = filter (\<lambda>v. vs_key v \<noteq> gdb_key g) ins"
    by (simp add: vs_key_def gdb_key_def line)
  from f filter_inserts_actual [of g "parseInt10 l" ?bp ins act lpm]
  have a: "a = act @ replicate (length (filter (\<lambda>v. vs_key v = gdb_key g) ins)) (createActual g)"
    by (simp add: vs_key_def gdb_key_def line)
  from assms(2) l f
  have "ins1 = i \<and> act1 = a
      \<and> dels1 = (if ?bp = None then dels @ [bp_number g] else dels)"
    by (simp add: scan_entry_def Let_def)
  then show ?thesis
    using i a by (simp add: find_None_line line )
qed

text \<open>The state after the whole table has been scanned.\<close>

lemma scan_fold:
  assumes "fold (scan_entry file bps) body (ins, dels, act, lpm) = (ins1, dels1, act1, lpm1)"
  shows "ins1 = filter (\<lambda>v. \<forall>g\<in>set body. in_file file g \<longrightarrow> vs_key v \<noteq> gdb_key g) ins
     \<and> dels1 = dels @ map bp_number
                 (filter (\<lambda>g. in_file file g \<and> \<not> (\<exists>v\<in>set bps. Some (vs_line v) = gdb_line g)) body)
     \<and> set act \<subseteq> set act1
     \<and> set act1 \<subseteq> set act \<union> createActual ` {x \<in> set body. in_file file x}"
  using assms
proof (induction body arbitrary: ins dels act lpm)
  case Nil
  then show ?case by simp
next
  case (Cons g body)
  show ?case
  proof (cases "in_file file g")
    case False
    with Cons.prems have "fold (scan_entry file bps) body (ins, dels, act, lpm) = (ins1, dels1, act1, lpm1)"
      by (simp add: scan_entry_skip)
    note ih = Cons.IH [OF this]
    have e1: "filter (\<lambda>v. \<forall>g\<in>set (g # body). in_file file g \<longrightarrow> vs_key v \<noteq> gdb_key g) ins
            = filter (\<lambda>v. \<forall>g\<in>set body. in_file file g \<longrightarrow> vs_key v \<noteq> gdb_key g) ins"
      using False by simp
    have e2: "filter (\<lambda>g. in_file file g \<and> \<not> (\<exists>v\<in>set bps. Some (vs_line v) = gdb_line g)) (g # body)
            = filter (\<lambda>g. in_file file g \<and> \<not> (\<exists>v\<in>set bps. Some (vs_line v) = gdb_line g)) body"
      using False by simp
    have e3: "{x \<in> set (g # body). in_file file x} = {x \<in> set body. in_file file x}"
      using False by auto
    show ?thesis unfolding e1 e2 e3 by (rule ih)
  next
    case True
    obtain i d a m where st: "scan_entry file bps g (ins, dels, act, lpm) = (i, d, a, m)"
      by (cases "scan_entry file bps g (ins, dels, act, lpm)") auto
    note h = scan_entry_in_file [OF True st]
    note hi = h [THEN conjunct1]
    note hd = h [THEN conjunct2, THEN conjunct1]
    note ha = h [THEN conjunct2, THEN conjunct2]
    from Cons.prems st have "fold (scan_entry file bps) body (i, d, a, m) = (ins1, dels1, act1, lpm1)"
      by simp
    note ih = Cons.IH [OF this]
    note ii = ih [THEN conjunct1]
    note id = ih [THEN conjunct2, THEN conjunct1]
    note ia = ih [THEN conjunct2, THEN conjunct2, THEN conjunct1]
    note ib = ih [THEN conjunct2, THEN conjunct2, THEN conjunct2]
    have 1: "ins1 = filter (\<lambda>v. \<forall>g\<in>set (g # body). in_file file g \<longrightarrow> vs_key v \<noteq> gdb_key g) ins"
      by (subst ii, subst hi) (simp add: True)
    have 2: "dels1 = dels @ map bp_number
                 (filter (\<lambda>g. in_file file g \<and> \<not> (\<exists>v\<in>set bps. Some (vs_line v) = gdb_line g)) (g # body))"
      by (subst id, subst hd) (simp add: True)
    have a_set: "set a \<subseteq> set act \<union> {createActual g}" and a_sup: "set act \<subseteq> set a"
      by (subst ha, auto)+
    have 3: "set act \<subseteq> set act1" using ia a_sup by (rule_tac subset_trans)
    have 4: "set act1 \<subseteq> set act \<union> createActual ` {x \<in> set (g # body). in_file file x}"
    proof
      fix x assume "x \<in> set act1"
      with ib have "x \<in> set a \<or> x \<in> createActual ` {x \<in> set body. in_file file x}" by auto
      then show "x \<in> set act \<union> createActual ` {x \<in> set (g # body). in_file file x}"
      proof
        assume "x \<in> set a"
        with a_set have "x \<in> set act \<or> x = createActual g" by auto
        then show ?thesis using True by auto
      next
        assume "x \<in> createActual ` {x \<in> set body. in_file file x}"
        then show ?thesis by auto
      qed
    qed
    show ?thesis by (intro conjI) (rule 1, rule 2, rule 3, rule 4)
  qed
qed



subsection \<open>A request whose desired set is the installed set\<close>


lemma sent_request:
  "sent (setBreakPointsRequest m args s) =
     sent (setBreakPoints_try m args
        ((if isRunning s then gdb_pause m (s\<lparr>waitPaused := True\<rparr>) else s)\<lparr>logPointMessages := Map.empty\<rparr>))
       @ (if isRunning s then [ExecContinue] else [])"
  by (simp add: setBreakPointsRequest_def Let_def sendExecContinue_def)





subsection \<open>Hit conditions\<close>







lemma sent_install:
  "sent (snd (install m file v t ign actual s)) =
     sent s @ [BreakInsert \<lparr>location = location_of file (vs_line v), condition = vs_condition v,
                            temporary = t, ignoreCount = ign\<rparr>]"
  by (simp add: install_def sendBreak_def split_beta split: sum.split)




subsection \<open>The pass on any backend\<close>

lemma insert_loop_sent:
  "\<exists>cs. sent (snd (insert_loop m file ins actual s)) = sent s @ cs \<and> list_all is_insert cs"
proof (induction ins arbitrary: actual s)
  case Nil
  show ?case by simp
next
  case (Cons v ins)
  show ?case
  proof (cases "decode_hitCondition (vs_hitCondition v)")
    case (Inl d)
    from Cons.IH [of actual "sendEvent (OutputEvent d) s"] Inl
    show ?thesis by (simp add: sendEvent_def)
  next
    case (Inr p)
    obtain t ign where p: "p = (t, ign)" by (cases p)
    obtain r s1 where i: "install m file v t ign actual s = (r, s1)"
      by (cases "install m file v t ign actual s")
    from sent_install [of m "file" v t ign actual s] i
    have s1: "sent s1 = sent s @ [BreakInsert \<lparr>location = location_of file (vs_line v),
                 condition = vs_condition v, temporary = t, ignoreCount = ign\<rparr>]" by simp
    have ii: "\<And>a. is_insert (BreakInsert a)" by (simp add: is_insert_def)
    show ?thesis
    proof (cases r)
      case (Inl e)
      with Inr p i s1 show ?thesis by (simp add: ii)
    next
      case (Inr a1)
      from Cons.IH [of a1 s1] obtain cs where
        cs: "sent (snd (insert_loop m file ins a1 s1)) = sent s1 @ cs" "list_all is_insert cs" by blast
      have "insert_loop m file (v # ins) actual s = insert_loop m file ins a1 s1"
        using \<open>decode_hitCondition (vs_hitCondition v) = Inr p\<close> p i Inr by simp
      with cs s1 show ?thesis by (simp add: ii)
    qed
  qed
qed

text \<open>
  For any backend: a row of the file whose line some desired breakpoint has is named by
  no break-delete of the pass, whatever the conditions are.
\<close>

lemma line_match_never_deleted:
  fixes s :: "'g session"
  assumes reply: "mi_breakList m (if isRunning s then mi_pause m (gdb s) else gdb s) = (Inr body, g1)"
    and dist: "distinct (map bp_number body)"
    and g: "g \<in> set body" "in_file (source_path args) g"
    and v: "v \<in> set (desired_of args)" "Some (vs_line v) = gdb_line g"
  shows "\<forall>ns. BreakDelete ns \<in> set (new_since (sent s) (sent (setBreakPointsRequest m args s)))
              \<longrightarrow> bp_number g \<notin> set ns"
proof -
  define s2 where
    "s2 = (if isRunning s then gdb_pause m (s\<lparr>waitPaused := True\<rparr>) else s)\<lparr>logPointMessages := Map.empty\<rparr>"
  have g2: "gdb s2 = (if isRunning s then mi_pause m (gdb s) else gdb s)"
    by (simp add: s2_def gdb_pause_def)
  have snt2: "sent s2 = sent s @ (if isRunning s then [Pause] else [])"
    by (simp add: s2_def gdb_pause_def)
  define s3 where "s3 = s2\<lparr>sent := sent s2 @ [BreakList], gdb := g1\<rparr>"
  have bl: "sendBreakList m s2 = (Inr body, s3)"
    using reply by (simp add: sendBreakList_def g2 s3_def)
  obtain ins1 dels1 act1 lpm1 where
    sc: "fold (scan_entry (source_path args) (desired_of args)) body
           (desired_of args, [], [], logPointMessages s3) = (ins1, dels1, act1, lpm1)"
    by (cases "fold (scan_entry (source_path args) (desired_of args)) body
           (desired_of args, [], [], logPointMessages s3)") auto
  have dels1: "dels1 = map bp_number
        (filter (\<lambda>g. in_file (source_path args) g
                  \<and> \<not> (\<exists>v\<in>set (desired_of args). Some (vs_line v) = gdb_line g)) body)"
    using scan_fold [OF sc, THEN conjunct2, THEN conjunct1] by simp
  have g_kept: "bp_number g \<notin> set dels1"
  proof
    assume "bp_number g \<in> set dels1"
    then obtain g' where g': "g' \<in> set body" "bp_number g' = bp_number g"
      "\<not> (\<exists>w\<in>set (desired_of args). Some (vs_line w) = gdb_line g')"
      by (auto simp: dels1)
    from dist g'(1,2) g(1) have "g' = g" by (simp add: distinct_map inj_on_def)
    with g'(3) v show False by blast
  qed
  obtain r4 s4 where il: "insert_loop m (source_path args) ins1 act1 (s3\<lparr>logPointMessages := lpm1\<rparr>) = (r4, s4)"
    by (cases "insert_loop m (source_path args) ins1 act1 (s3\<lparr>logPointMessages := lpm1\<rparr>)")
  from insert_loop_sent [of m "source_path args" ins1 act1 "s3\<lparr>logPointMessages := lpm1\<rparr>"] il
  obtain cs where cs: "sent s4 = sent s3 @ cs" "list_all is_insert cs" by auto
  have t: "setBreakPoints_try m args s2 =
      (case r4 of
         Inl err \<Rightarrow> sendErrorResponse 1 err s4
       | Inr actual1 \<Rightarrow>
           if dels1 \<noteq> []
           then (case sendBreakDelete m dels1 s4 of
                   (Inl err, s5) \<Rightarrow> sendErrorResponse 1 err s5
                 | (Inr _, s5) \<Rightarrow> sendResponse (SetBreakpointsResponse actual1) s5)
           else sendResponse (SetBreakpointsResponse actual1) s4)"
    using bl sc il by (simp add: setBreakPoints_try_def Let_def desired_of_def [symmetric])
  have del: "sent (snd (sendBreakDelete m dels1 s4)) = sent s4 @ [BreakDelete dels1]"
    by (simp add: sendBreakDelete_def split_beta)
  have "\<exists>ds. sent (setBreakPoints_try m args s2) = sent s4 @ ds \<and> (ds = [] \<or> ds = [BreakDelete dels1])"
    unfolding t using del
    by (cases "sendBreakDelete m dels1 s4")
      (auto simp: sendErrorResponse_def sendResponse_def split: sum.splits)
  then obtain ds where ds: "sent (setBreakPoints_try m args s2) = sent s4 @ ds"
    "ds = [] \<or> ds = [BreakDelete dels1]" by blast
  have new_cmds: "new_since (sent s) (sent (setBreakPointsRequest m args s))
      = (if isRunning s then [Pause] else []) @ [BreakList] @ cs @ ds
          @ (if isRunning s then [ExecContinue] else [])"
    unfolding sent_request s2_def [symmetric] ds(1) cs(1)
    by (simp add: new_since_def s3_def snt2)
  have no_del_cs: "\<And>ns. BreakDelete ns \<notin> set cs"
    using cs(2) by (auto simp: list_all_iff is_insert_def)
  show ?thesis
    using g_kept no_del_cs ds(2) by (auto simp: new_cmds split: if_splits)
qed

subsection \<open>The pass on the reference backend\<close>





lemma string_of_int_nonempty: "string_of_int l \<noteq> []"
  by (simp add: string_of_int_def string_of_nat_nonempty)







subsection \<open>Registered log messages\<close>

text \<open>
  The log-point table is emptied at the start of every request and a message is stored
  only when it is truthy, so every message a request registers is non-empty; no other
  operation of the session writes the table.
\<close>

lemma all_truthy_empty: "all_truthy Map.empty"
  by (simp add: all_truthy_def)

lemma all_truthy_register: "all_truthy lpm \<Longrightarrow> all_truthy (register_log n msg lpm)"
  by (auto simp: all_truthy_def register_log_def split: option.splits)

lemma all_truthy_filter_inserts:
  "all_truthy lpm \<Longrightarrow> all_truthy (snd (snd (filter_inserts g line bp vs actual lpm)))"
proof (induction vs arbitrary: actual lpm)
  case Nil
  then show ?case by simp
next
  case (Cons v vs)
  have r: "all_truthy (case bp of None \<Rightarrow> lpm | Some b \<Rightarrow> register_log (bp_number g) (vs_logMessage b) lpm)"
    using Cons.prems by (cases bp) (simp_all add: all_truthy_register)
  show ?case using Cons.IH [OF Cons.prems] Cons.IH [OF r] by (simp add: split_beta)
qed

lemma all_truthy_scan_entry:
  assumes "all_truthy lpm" and "scan_entry file bps g (ins, dels, act, lpm) = (ins1, dels1, act1, lpm1)"
  shows "all_truthy lpm1"
proof (cases "bp_fullname g = file \<and> truthy (bp_line g)")
  case False
  with assms show ?thesis by (auto simp: scan_entry_def)
next
  case True
  then obtain l where l: "bp_line g = Some l" by (auto simp: truthy_def split: option.splits)
  let ?bp = "find (\<lambda>vsbp. Some (vs_line vsbp) = parseInt10 l) bps"
  have "lpm1 = snd (snd (filter_inserts g (parseInt10 l) ?bp ins act lpm))"
    using assms(2) True l by (simp add: scan_entry_def Let_def split_beta)
  with all_truthy_filter_inserts [OF assms(1)] show ?thesis by simp
qed

lemma all_truthy_scan:
  assumes "all_truthy lpm"
    and "fold (scan_entry file bps) body (ins, dels, act, lpm) = (ins1, dels1, act1, lpm1)"
  shows "all_truthy lpm1"
  using assms
proof (induction body arbitrary: ins dels act lpm)
  case Nil
  then show ?case by simp
next
  case (Cons g body)
  obtain i d a m where st: "scan_entry file bps g (ins, dels, act, lpm) = (i, d, a, m)"
    by (cases "scan_entry file bps g (ins, dels, act, lpm)") auto
  from all_truthy_scan_entry [OF Cons.prems(1) st] have m: "all_truthy m" .
  from Cons.prems(2) st have "fold (scan_entry file bps) body (i, d, a, m) = (ins1, dels1, act1, lpm1)"
    by simp
  from Cons.IH [OF m this] show ?case .
qed

lemma all_truthy_install:
  "all_truthy (logPointMessages s) \<Longrightarrow>
     all_truthy (logPointMessages (snd (install m file v t ign actual s)))"
  by (simp add: install_def sendBreak_def split_beta all_truthy_register split: sum.split)

lemma all_truthy_insert_loop:
  "all_truthy (logPointMessages s) \<Longrightarrow>
     all_truthy (logPointMessages (snd (insert_loop m file ins actual s)))"
proof (induction ins arbitrary: actual s)
  case Nil
  then show ?case by simp
next
  case (Cons v ins)
  show ?case
  proof (cases "decode_hitCondition (vs_hitCondition v)")
    case (Inl d)
    have "all_truthy (logPointMessages (sendEvent (OutputEvent d) s))"
      using Cons.prems by (simp add: sendEvent_def)
    from Cons.IH [OF this] Inl show ?thesis by simp
  next
    case (Inr p)
    obtain t ign where p: "p = (t, ign)" by (cases p)
    obtain r s1 where i: "install m file v t ign actual s = (r, s1)"
      by (cases "install m file v t ign actual s")
    from all_truthy_install [OF Cons.prems, of m "file" v t ign actual] i
    have s1: "all_truthy (logPointMessages s1)" by simp
    show ?thesis
    proof (cases r)
      case (Inl e)
      with Inr p i s1 show ?thesis by simp
    next
      case (Inr a1)
      with \<open>decode_hitCondition (vs_hitCondition v) = Inr p\<close> p i Cons.IH [OF s1, of a1]
      show ?thesis by simp
    qed
  qed
qed

lemma all_truthy_try:
  assumes "all_truthy (logPointMessages s)"
  shows "all_truthy (logPointMessages (setBreakPoints_try m args s))"
proof -
  obtain r s1 where bl: "sendBreakList m s = (r, s1)" by (cases "sendBreakList m s")
  then have l1: "logPointMessages s1 = logPointMessages s"
    by (auto simp: sendBreakList_def split_beta)
  show ?thesis
  proof (cases r)
    case (Inl e)
    with bl l1 assms show ?thesis
      by (simp add: setBreakPoints_try_def sendErrorResponse_def)
  next
    case (Inr body)
    define bps where "bps = (case breakpoints args of None \<Rightarrow> [] | Some b \<Rightarrow> b)"
    obtain ins1 dels1 act1 lpm1 where
      sc: "fold (scan_entry (source_path args) bps) body (bps, [], [], logPointMessages s1)
             = (ins1, dels1, act1, lpm1)"
      by (cases "fold (scan_entry (source_path args) bps) body (bps, [], [], logPointMessages s1)") auto
    from assms l1 have "all_truthy (logPointMessages s1)" by simp
    from all_truthy_scan [OF this sc] have "all_truthy (logPointMessages (s1\<lparr>logPointMessages := lpm1\<rparr>))"
      by simp
    from all_truthy_insert_loop [OF this, of m "source_path args" ins1 act1]
    obtain r2 s2 where il: "insert_loop m (source_path args) ins1 act1 (s1\<lparr>logPointMessages := lpm1\<rparr>) = (r2, s2)"
      and s2: "all_truthy (logPointMessages s2)"
      by (cases "insert_loop m (source_path args) ins1 act1 (s1\<lparr>logPointMessages := lpm1\<rparr>)") auto
    have del: "logPointMessages (snd (sendBreakDelete m dels1 s2)) = logPointMessages s2"
      by (simp add: sendBreakDelete_def split_beta)
    have eq: "setBreakPoints_try m args s =
      (case r2 of
         Inl err \<Rightarrow> sendErrorResponse 1 err s2
       | Inr actual1 \<Rightarrow>
           if dels1 \<noteq> []
           then (case sendBreakDelete m dels1 s2 of
                   (Inl err, s3) \<Rightarrow> sendErrorResponse 1 err s3
                 | (Inr _, s3) \<Rightarrow> sendResponse (SetBreakpointsResponse actual1) s3)
           else sendResponse (SetBreakpointsResponse actual1) s2)"
      using bl Inr sc il by (simp add: setBreakPoints_try_def Let_def bps_def [symmetric])
    show ?thesis
      unfolding eq using s2 del
      by (cases "sendBreakDelete m dels1 s2")
        (auto simp: sendErrorResponse_def sendResponse_def split: sum.splits)
  qed
qed

lemma registered_messages_nonempty:
  "logPointMessages (setBreakPointsRequest m args s) k = Some msg \<Longrightarrow> msg \<noteq> []"
proof -
  let ?s2 = "(if isRunning s then gdb_pause m (s\<lparr>waitPaused := True\<rparr>) else s)\<lparr>logPointMessages := Map.empty\<rparr>"
  have "all_truthy (logPointMessages ?s2)" by (simp add: all_truthy_empty)
  from all_truthy_try [OF this, of m args]
  have "all_truthy (logPointMessages (setBreakPointsRequest m args s))"
    by (cases "isRunning s") (simp_all add: setBreakPointsRequest_def Let_def sendExecContinue_def)
  then show "logPointMessages (setBreakPointsRequest m args s) k = Some msg \<Longrightarrow> msg \<noteq> []"
    by (simp add: all_truthy_def)
qed

lemma logPointMessages_unchanged:
  "logPointMessages (handleGDBStopped m r s) = logPointMessages s"
  "logPointMessages (scopesRequest fid s) = logPointMessages s"
  "logPointMessages (stackTraceRequest s) = logPointMessages s"
  "logPointMessages (snd (getVariables m frame name expr depth s)) = logPointMessages s"
proof -
  show "logPointMessages (handleGDBStopped m r s) = logPointMessages s"
    by (simp add: handleGDBStopped_def sendEvent_def sendStoppedEvent_def sendExecContinue_def Let_def
          split: option.split)
  show "logPointMessages (scopesRequest fid s) = logPointMessages s"
    by (simp add: scopesRequest_def sendResponse_def split_beta)
  show "logPointMessages (stackTraceRequest s) = logPointMessages s"
    by (simp add: stackTraceRequest_def split_beta)
  have v: "\<And>e g t. logPointMessages (snd (variable_of e g t)) = logPointMessages t"
    by (simp add: variable_of_def Let_def split_beta)
  show "logPointMessages (snd (getVariables m frame name expr depth s)) = logPointMessages s"
    by (simp add: getVariables_def sendVarUpdate_def sendVarCreate_def addVar_def split_beta v Let_def
          split: option.split sum.split list.split)
qed


section \<open>Properties of the stop classifier\<close>

text \<open>
  C3. A breakpoint-hit notification whose breakpoint number has a registered log-point
  message (a registered message is non-empty, see \<open>registered_messages_nonempty\<close>) makes the classifier send that
  message as one output event and one exec-continue command, and no stop event.
\<close>

theorem logpoint_hit_resumes:
  assumes "reason r = Some ''breakpoint-hit''"
    and "log_message_for (logPointMessages s) (bkptno r) = Some msg"
    and "msg \<noteq> []"
  shows "out (handleGDBStopped m r s) = out s @ [OutputEvent msg]
     \<and> sent (handleGDBStopped m r s) = sent s @ [ExecContinue]
     \<and> filter is_stop_event (new_since (out s) (out (handleGDBStopped m r s))) = []
     \<and> count_list (new_since (sent s) (sent (handleGDBStopped m r s))) ExecContinue = 1"
  using assms
  by (simp add: handleGDBStopped_def truthy_def sendExecContinue_def sendEvent_def new_since_def
        is_stop_event_def)

theorem logpoint_hit_resumes_witness:
  "reason hit1 = Some ''breakpoint-hit''
   \<and> log_message_for
         (logPointMessages (setBreakPointsRequest model_mi (request [logpoint40]) (new_session g0)))
         (bkptno hit1) = Some ''hit main''
   \<and> ''hit main'' \<noteq> []
   \<and> out (handleGDBStopped model_mi hit1
             (setBreakPointsRequest model_mi (request [logpoint40]) (new_session g0)))
       = out (setBreakPointsRequest model_mi (request [logpoint40]) (new_session g0))
           @ [OutputEvent ''hit main'']
   \<and> sent (handleGDBStopped model_mi hit1
             (setBreakPointsRequest model_mi (request [logpoint40]) (new_session g0)))
       = [BreakList,
          BreakInsert \<lparr>location = ''main.c:40'', condition = None, temporary = False, ignoreCount = None\<rparr>,
          ExecContinue]"
proof -
  have r: "reason hit1 = Some ''breakpoint-hit''" by (simp add: hit1_def)
  have l: "log_message_for
         (logPointMessages (setBreakPointsRequest model_mi (request [logpoint40]) (new_session g0)))
         (bkptno hit1) = Some ''hit main''"
    by code_simp
  have n: "''hit main'' \<noteq> []" by simp
  note t = logpoint_hit_resumes [OF r l n, of model_mi]
  have s: "sent (setBreakPointsRequest model_mi (request [logpoint40]) (new_session g0))
       = [BreakList,
          BreakInsert \<lparr>location = ''main.c:40'', condition = None, temporary = False, ignoreCount = None\<rparr>]"
    by code_simp
  have snt: "sent (handleGDBStopped model_mi hit1
             (setBreakPointsRequest model_mi (request [logpoint40]) (new_session g0)))
       = [BreakList,
          BreakInsert \<lparr>location = ''main.c:40'', condition = None, temporary = False, ignoreCount = None\<rparr>,
          ExecContinue]"
    using t [THEN conjunct2, THEN conjunct1] by (simp add: s)
  show ?thesis using r l n t [THEN conjunct1] snt by (intro conjI)
qed

end
